theory Spec2Isabelle
  imports Complex_Main "HOL-Library.Multiset"
begin

section \<open>Ollama model benchmark: a model of \<^verbatim>\<open>benchmark_models.py\<close>\<close>

text \<open>
  The script benchmarks every installed model on three fixed prompts. Everything it reads
  from outside (the backend processes, the clock, the memory readings, the file system)
  is an explicit argument of the model; every exception of the source is a value.
  Python strings are lists of characters with code points below 256, Python floats are
  exact reals (so \<open>round(x, 2)\<close> is rounding half to even on the exact value), and
  progress messages that no property speaks about are left out of the console.
\<close>

subsection \<open>Exceptions\<close>

text \<open>
  Each constructor carries \<open>str(e)\<close>. \<open>KeyboardInterrupt\<close> derives from
  \<open>BaseException\<close> only, so \<^verbatim>\<open>except Exception\<close> does not catch it.
\<close>

datatype exn =
    TimeoutExpired string
  | CalledProcessError string
  | FileNotFoundError string
  | KeyboardInterrupt
  | OtherException string

fun is_Exception :: "exn \<Rightarrow> bool" where
  "is_Exception KeyboardInterrupt = False"
| "is_Exception _ = True"

fun str_exn :: "exn \<Rightarrow> string" where
  "str_exn (TimeoutExpired s) = s"
| "str_exn (CalledProcessError s) = s"
| "str_exn (FileNotFoundError s) = s"
| "str_exn KeyboardInterrupt = []"
| "str_exn (OtherException s) = s"

subsection \<open>Strings: \<open>str.strip()\<close>, \<open>str.split()\<close>, \<open>str.split(sep)\<close>\<close>

definition is_space :: "char \<Rightarrow> bool" where
  "is_space c \<longleftrightarrow>
     c \<in> {CHR 0x09, CHR 0x0A, CHR 0x0B, CHR 0x0C, CHR 0x0D, CHR 0x1C, CHR 0x1D,
          CHR 0x1E, CHR 0x1F, CHR 0x20, CHR 0x85, CHR 0xA0}"

definition strip :: "string \<Rightarrow> string" where
  "strip s = rev (dropWhile is_space (rev (dropWhile is_space s)))"

text \<open>
  \<open>text.split()\<close> with no separator: runs of whitespace separate the tokens and no
  empty token is produced. \<open>cur\<close> is the token being read.
\<close>

fun split_from :: "string \<Rightarrow> string \<Rightarrow> string list" where
  "split_from cur [] = (if cur = [] then [] else [cur])"
| "split_from cur (c # cs) =
     (if is_space c then (if cur = [] then split_from [] cs else cur # split_from [] cs)
      else split_from (cur @ [c]) cs)"

definition split :: "string \<Rightarrow> string list" where
  "split s = split_from [] s"

text \<open>\<open>text.split(sep)\<close> for a one-character separator: empty fields are kept.\<close>

fun split_on_from :: "char \<Rightarrow> string \<Rightarrow> string \<Rightarrow> string list" where
  "split_on_from sep cur [] = [cur]"
| "split_on_from sep cur (c # cs) =
     (if c = sep then cur # split_on_from sep [] cs else split_on_from sep (cur @ [c]) cs)"

definition split_on :: "char \<Rightarrow> string \<Rightarrow> string list" where
  "split_on sep s = split_on_from sep [] s"

definition count_tokens :: "string \<Rightarrow> nat" where
  "count_tokens s = length (split s)"


subsection \<open>Numbers: \<open>round(x, 2)\<close>\<close>

definition round_half_even :: "real \<Rightarrow> int" where
  "round_half_even x =
     (let f = \<lfloor>x\<rfloor>; d = x - of_int f
      in if d < 1 / 2 then f else if 1 / 2 < d then f + 1 else if even f then f else f + 1)"

definition py_round :: "real \<Rightarrow> nat \<Rightarrow> real" where
  "py_round x n = of_int (round_half_even (x * 10 ^ n)) / 10 ^ n"

subsection \<open>Dictionaries built by \<open>run_inference\<close>\<close>

datatype pyval = PFloat real | PInt int | PStr string

type_synonym pydict = "(string \<times> pyval) list"

abbreviation has_key :: "pydict \<Rightarrow> string \<Rightarrow> bool" where
  "has_key d k \<equiv> map_of d k \<noteq> None"

subsection \<open>\<open>run_inference\<close>\<close>

record completed =
  returncode :: int
  stdout :: string
  stderr :: string

text \<open>
  What one call of \<open>run_inference\<close> observes: the resident set size in bytes before the
  \<^verbatim>\<open>try\<close>, the clock before and after \<open>subprocess.run\<close>, what \<open>subprocess.run\<close>
  did (without \<open>check\<close>, so a non-zero exit status is a normal return), and the resident
  set size after. The model name and the prompt are only handed to the backend, so they
  are part of what is observed and no argument of the function below.
\<close>

record inference_env =
  rss_before :: "exn + int"
  start_time :: real
  run_result :: "exn + completed"
  end_time :: real
  rss_after :: "exn + int"

type_synonym inference = "string \<times> real \<times> real \<times> pydict"

text \<open>The body of the \<^verbatim>\<open>try\<close> block, lines 71 to 96.\<close>

definition run_inference_body :: "inference_env \<Rightarrow> real \<Rightarrow> exn + inference" where
  "run_inference_body env memory_before =
     (case run_result env of
        Inl e \<Rightarrow> Inl e
      | Inr result \<Rightarrow>
          if returncode result \<noteq> 0
          then Inr ([], 0, 0, [(''error'', PStr (stderr result))])
          else
            let response = strip (stdout result);
                total_time = end_time env - start_time env;
                token_count = count_tokens response;
                tokens_per_second =
                  (if total_time > 0 then real token_count / total_time else 0)
            in (case rss_after env of
                  Inl e \<Rightarrow> Inl e
                | Inr ra \<Rightarrow>
                    let memory_after = real_of_int ra / 1024 / 1024;
                        memory_used = memory_after - memory_before
                    in Inr (response, total_time, tokens_per_second,
                         [(''total_time'', PFloat (py_round total_time 2)),
                          (''tokens_generated'', PInt (int token_count)),
                          (''tokens_per_second'', PFloat (py_round tokens_per_second 2)),
                          (''memory_delta_mb'', PFloat (py_round memory_used 2)),
                          (''response_length'', PInt (int (length response)))])))"

text \<open>
  The whole function: the memory reading before the \<^verbatim>\<open>try\<close> is not protected, the
  handlers are tried in the order of the source.
\<close>

definition run_inference :: "inference_env \<Rightarrow> exn + inference" where
  "run_inference env =
     (case rss_before env of
        Inl e \<Rightarrow> Inl e
      | Inr rb \<Rightarrow>
          (case run_inference_body env (real_of_int rb / 1024 / 1024) of
             Inr r \<Rightarrow> Inr r
           | Inl (TimeoutExpired _) \<Rightarrow>
               Inr ([], 0, 0, [(''error'', PStr ''Timeout after 120 seconds'')])
           | Inl e \<Rightarrow>
               if is_Exception e then Inr ([], 0, 0, [(''error'', PStr (str_exn e))])
               else Inl e))"

subsection \<open>\<open>benchmark_model\<close>\<close>

record test_prompt =
  name :: string
  prompt :: string
  expected_tokens :: int

definition init_test_prompts :: "test_prompt list" where
  "init_test_prompts =
     [\<lparr>name = ''Creative Writing'',
       prompt = ''Write a short story about a robot discovering emotions for the first time.'',
       expected_tokens = 150\<rparr>,
      \<lparr>name = ''Technical Explanation'',
       prompt = ''Explain how neural networks work in simple terms that a beginner could understand.'',
       expected_tokens = 200\<rparr>,
      \<lparr>name = ''Code Generation'',
       prompt = ''Write a Python function that calculates the factorial of a number using recursion.'',
       expected_tokens = 100\<rparr>]"

record prompt_result =
  name :: string
  prompt :: string
  response :: string
  metrics :: pydict

text \<open>
  A model's report. The key \<open>success_rate\<close> is only assigned when a prompt succeeded,
  so it may be absent.
\<close>

record report =
  model :: string
  timestamp :: string
  prompts :: "prompt_result list"
  average_tps :: real
  average_time :: real
  success_rate :: "real option"

text \<open>
  What one call of \<open>benchmark_model\<close> observes: \<open>datetime.now()\<close> and, for the
  prompt at each position, what \<open>run_inference\<close> observes.
\<close>

record model_env =
  now :: string
  inference_at :: "nat \<Rightarrow> inference_env"

type_synonym tally = "prompt_result list \<times> real \<times> real \<times> nat"

text \<open>
  The loop over \<open>self.test_prompts\<close>, lines 119 to 141; the tally is
  \<open>(model_results["prompts"], total_tps, total_time, successful_tests)\<close> and \<open>i\<close>
  is the position of the next prompt.
\<close>

fun prompt_loop :: "(nat \<Rightarrow> inference_env) \<Rightarrow> nat \<Rightarrow> test_prompt list \<Rightarrow> tally \<Rightarrow> exn + tally" where
  "prompt_loop envs i [] acc = Inr acc"
| "prompt_loop envs i (tp # tps) (done_prompts, total_tps, total_time, successful_tests) =
     (case run_inference (envs i) of
        Inl e \<Rightarrow> Inl e
      | Inr (resp, inference_time, tps_value, m) \<Rightarrow>
          let prompt_result =
                \<lparr>name = test_prompt.name tp, prompt = test_prompt.prompt tp,
                 response = (if length resp > 200 then take 200 resp @ ''...'' else resp),
                 metrics = m\<rparr>
          in if \<not> has_key m ''error''
             then prompt_loop envs (Suc i) tps
                    (done_prompts @ [prompt_result], total_tps + tps_value,
                     total_time + inference_time, Suc successful_tests)
             else prompt_loop envs (Suc i) tps
                    (done_prompts @ [prompt_result], total_tps, total_time, successful_tests))"

definition benchmark_model :: "model_env \<Rightarrow> string \<Rightarrow> test_prompt list \<Rightarrow> exn + report" where
  "benchmark_model env mname test_prompts =
     (case prompt_loop (inference_at env) 0 test_prompts ([], 0, 0, 0) of
        Inl e \<Rightarrow> Inl e
      | Inr (done_prompts, total_tps, total_time, successful_tests) \<Rightarrow>
          let model_results =
                \<lparr>model = mname, timestamp = now env, prompts = done_prompts,
                 average_tps = 0, average_time = 0, success_rate = None\<rparr>
          in if successful_tests > 0
             then Inr (model_results
                    \<lparr>average_tps := py_round (total_tps / real successful_tests) 2,
                     average_time := py_round (total_time / real successful_tests) 2,
                     success_rate :=
                       Some (py_round (real successful_tests / real (length test_prompts)) 2)\<rparr>)
             else Inr model_results)"

subsection \<open>\<open>get_available_models\<close>\<close>

text \<open>
  What the script prints, as far as the properties below speak about it. A \<open>Row\<close> holds
  the truncated model name and the three numbers that the table formats; \<open>Fastest\<close>
  holds the model name and its average.
\<close>

datatype line =
    OllamaNotFound
  | NoModelsFound
  | ErrorGettingModelList exn
  | ErrorBenchmarking string exn
  | Interrupted
  | ResultsSaved string
  | NoResults
  | SummaryHeader
  | Row string real real real
  | Rule
  | Fastest string real

text \<open>
  \<open>subprocess.run(['ollama', 'list'], check=True)\<close> is one observation: it returns the
  completed process, or raises \<open>CalledProcessError\<close> for a non-zero exit status, or
  raises something else (\<open>FileNotFoundError\<close> when the program cannot be started).
  Only \<open>CalledProcessError\<close> is handled.
\<close>

fun model_names :: "string list \<Rightarrow> exn + string list" where
  "model_names [] = Inr []"
| "model_names (l # ls) =
     (if strip l \<noteq> []
      then (case split l of
              [] \<Rightarrow> Inl (OtherException ''list index out of range'')
            | model_name # _ \<Rightarrow>
                (case model_names ls of Inl e \<Rightarrow> Inl e | Inr ms \<Rightarrow> Inr (model_name # ms)))
      else model_names ls)"

definition get_available_models :: "exn + completed \<Rightarrow> line list \<times> (exn + string list)" where
  "get_available_models list_result =
     (case list_result of
        Inr result \<Rightarrow> ([], model_names (tl (split_on (CHR 0x0A) (strip (stdout result)))))
      | Inl (CalledProcessError s) \<Rightarrow> ([ErrorGettingModelList (CalledProcessError s)], Inr [])
      | Inl e \<Rightarrow> ([], Inl e))"

subsection \<open>\<open>save_results\<close> and \<open>print_summary\<close>\<close>

record system_info =
  cpu_count :: int
  memory_gb :: real
  python_version :: string

record test_configuration =
  prompts :: "test_prompt list"
  timeout_seconds :: int

record benchmark_data =
  benchmark_date :: string
  system_info :: system_info
  test_configuration :: test_configuration
  results :: "report list"

text \<open>
  A file opened with mode \<open>'w'\<close> is truncated at once and filled while \<open>json.dump\<close>
  runs: until the dump has finished it holds no complete document.
\<close>

datatype stored = HalfWritten | Artifact benchmark_data

text \<open>
  The state of the script: the two attributes of the \<open>OllamaBenchmark\<close> object, the
  files of the working directory and the console.
\<close>

record state =
  results :: "report list"
  test_prompts :: "test_prompt list"
  files :: "string \<rightharpoonup> stored"
  console :: "line list"

text \<open>
  What one call of \<open>save_results\<close> observes: the two readings of \<open>datetime.now()\<close>,
  the machine, and whether \<open>open\<close> or \<open>json.dump\<close> raise.
\<close>

record save_env =
  today :: string
  now_iso :: string
  psutil_cpu_count :: int
  virtual_memory_total :: int
  sys_version :: string
  open_fault :: "exn option"
  dump_fault :: "exn option"

definition results_filename :: "save_env \<Rightarrow> string" where
  "results_filename env = ''benchmark-results-'' @ today env @ ''.json''"

definition make_benchmark_data :: "save_env \<Rightarrow> state \<Rightarrow> benchmark_data" where
  "make_benchmark_data env st =
     \<lparr>benchmark_date = now_iso env,
      system_info =
        \<lparr>cpu_count = psutil_cpu_count env,
         memory_gb = py_round (real_of_int (virtual_memory_total env) / 1024 ^ 3) 1,
         python_version = sys_version env\<rparr>,
      test_configuration =
        \<lparr>test_configuration.prompts = test_prompts st, timeout_seconds = 120\<rparr>,
      benchmark_data.results = results st\<rparr>"

definition save_results :: "save_env \<Rightarrow> state \<Rightarrow> state \<times> exn option" where
  "save_results env st =
     (let filename = results_filename env;
          data = make_benchmark_data env st
      in case open_fault env of
           Some e \<Rightarrow> (st, Some e)
         | None \<Rightarrow>
             let opened = st\<lparr>files := (files st)(filename \<mapsto> HalfWritten)\<rparr>
             in (case dump_fault env of
                   Some e \<Rightarrow> (opened, Some e)
                 | None \<Rightarrow>
                     (opened\<lparr>files := (files opened)(filename \<mapsto> Artifact data),
                             console := console opened @ [ResultsSaved filename]\<rparr>, None)))"

text \<open>
  \<open>sorted(xs, key=k, reverse=True)\<close>: the list is reversed, sorted by a stable
  ascending sort, and reversed again.
\<close>

definition sorted_reverse :: "('a \<Rightarrow> real) \<Rightarrow> 'a list \<Rightarrow> 'a list" where
  "sorted_reverse k xs = rev (sort_key k (rev xs))"

definition sorted_results :: "report list \<Rightarrow> report list" where
  "sorted_results rs = sorted_reverse average_tps (filter (\<lambda>r. average_tps r > 0) rs)"

definition summary_row :: "report \<Rightarrow> line" where
  "summary_row r =
     Row (take 34 (model r)) (average_tps r) (average_time r)
       ((case success_rate r of None \<Rightarrow> 0 | Some x \<Rightarrow> x) * 100)"

definition summary_lines :: "report list \<Rightarrow> line list" where
  "summary_lines rs =
     (if rs = [] then [NoResults]
      else [SummaryHeader, Rule] @ map summary_row (sorted_results rs) @ [Rule] @
           (case sorted_results rs of
              [] \<Rightarrow> []
            | fastest # _ \<Rightarrow> [Fastest (model fastest) (average_tps fastest)]))"

definition print_summary :: "state \<Rightarrow> state" where
  "print_summary st = st\<lparr>console := console st @ summary_lines (results st)\<rparr>"

subsection \<open>\<open>run_full_benchmark\<close> and \<open>main\<close>\<close>

text \<open>
  Everything one run observes. \<open>model_env_at i\<close> is what \<open>benchmark_model\<close> observes
  for the model at position \<open>i\<close> of the discovered list; \<open>save_env_main\<close> is what the
  second \<open>save_results\<close>, in the handler of \<open>main\<close>, observes.
\<close>

record world =
  version_result :: "exn + completed"
  list_result :: "exn + completed"
  model_env_at :: "nat \<Rightarrow> model_env"
  save_env :: save_env
  save_env_main :: save_env

text \<open>
  The loop over the models, lines 163 to 174: a report is appended only when
  \<open>benchmark_model\<close> returns; \<open>KeyboardInterrupt\<close> leaves the loop, any other
  exception goes on with the next model.
\<close>

fun model_loop :: "(nat \<Rightarrow> model_env) \<Rightarrow> nat \<Rightarrow> string list \<Rightarrow> state \<Rightarrow> state" where
  "model_loop envs i [] st = st"
| "model_loop envs i (m # ms) st =
     (case benchmark_model (envs i) m (test_prompts st) of
        Inr result \<Rightarrow> model_loop envs (Suc i) ms (st\<lparr>results := results st @ [result]\<rparr>)
      | Inl KeyboardInterrupt \<Rightarrow> st\<lparr>console := console st @ [Interrupted]\<rparr>
      | Inl e \<Rightarrow> model_loop envs (Suc i) ms (st\<lparr>console := console st @ [ErrorBenchmarking m e]\<rparr>))"

definition run_full_benchmark :: "world \<Rightarrow> state \<Rightarrow> state \<times> exn option" where
  "run_full_benchmark w st =
     (case get_available_models (list_result w) of
        (out, Inl e) \<Rightarrow> (st\<lparr>console := console st @ out\<rparr>, Some e)
      | (out, Inr models) \<Rightarrow>
          let st1 = st\<lparr>console := console st @ out\<rparr>
          in if models = [] then (st1\<lparr>console := console st1 @ [NoModelsFound]\<rparr>, None)
             else
               (case save_results (save_env w) (model_loop (model_env_at w) 0 models st1) of
                  (st2, Some e) \<Rightarrow> (st2, Some e)
                | (st2, None) \<Rightarrow> (print_summary st2, None)))"

datatype exit = Returned | Exit int | Uncaught exn

definition main :: "world \<Rightarrow> (string \<rightharpoonup> stored) \<Rightarrow> state \<times> exit" where
  "main w fs =
     (let benchmark =
            \<lparr>results = [], test_prompts = init_test_prompts, files = fs, console = []\<rparr>
      in case version_result w of
           Inl (CalledProcessError _) \<Rightarrow> (benchmark\<lparr>console := [OllamaNotFound]\<rparr>, Exit 1)
         | Inl (FileNotFoundError _) \<Rightarrow> (benchmark\<lparr>console := [OllamaNotFound]\<rparr>, Exit 1)
         | Inl e \<Rightarrow> (benchmark, Uncaught e)
         | Inr _ \<Rightarrow>
             (case run_full_benchmark w benchmark of
                (st, None) \<Rightarrow> (st, Returned)
              | (st, Some KeyboardInterrupt) \<Rightarrow>
                  let st1 = st\<lparr>console := console st @ [Interrupted]\<rparr>
                  in if results st1 \<noteq> []
                     then (case save_results (save_env_main w) st1 of
                             (st2, Some e) \<Rightarrow> (st2, Uncaught e)
                           | (st2, None) \<Rightarrow> (print_summary st2, Returned))
                     else (st1, Returned)
              | (st, Some e) \<Rightarrow> (st, Uncaught e)))"

subsection \<open>Reference definitions\<close>

text \<open>
  The successful inferences of a model, in prompt order: those that returned and whose
  metrics hold no \<open>error\<close> key; and the arithmetic mean.
\<close>

fun success_of :: "exn + inference \<Rightarrow> inference list" where
  "success_of (Inr (resp, t, v, m)) = (if has_key m ''error'' then [] else [(resp, t, v, m)])"
| "success_of (Inl e) = []"

definition successful :: "(nat \<Rightarrow> inference_env) \<Rightarrow> nat \<Rightarrow> inference list" where
  "successful envs n = concat (map (\<lambda>i. success_of (run_inference (envs i))) [0..<n])"

fun throughput :: "inference \<Rightarrow> real" where
  "throughput (resp, t, v, m) = v"

fun elapsed :: "inference \<Rightarrow> real" where
  "elapsed (resp, t, v, m) = t"

definition mean :: "real list \<Rightarrow> real" where
  "mean xs = sum_list xs / real (length xs)"

text \<open>
  What \<open>benchmark_model\<close> does for each discovered model, in order of discovery; the
  reports among these outcomes; and the messages for the faults among them.
\<close>

definition outcomes :: "(nat \<Rightarrow> model_env) \<Rightarrow> string list \<Rightarrow> test_prompt list \<Rightarrow> (exn + report) list" where
  "outcomes envs ms tps = map (\<lambda>i. benchmark_model (envs i) (ms ! i) tps) [0..<length ms]"

fun reports_of :: "(exn + report) list \<Rightarrow> report list" where
  "reports_of [] = []"
| "reports_of (Inr r # outs) = r # reports_of outs"
| "reports_of (Inl e # outs) = reports_of outs"

fun error_lines :: "(string \<times> (exn + report)) list \<Rightarrow> line list" where
  "error_lines [] = []"
| "error_lines ((m, Inr r) # outs) = error_lines outs"
| "error_lines ((m, Inl e) # outs) = ErrorBenchmarking m e # error_lines outs"

subsection \<open>Scenarios\<close>

text \<open>
  A backend that prints \<open>out\<close> after \<open>secs\<close> seconds, one that exceeds the timeout, one
  that exits with status 1, one that is interrupted from the keyboard, and a memory
  reading that fails before the backend is started.
\<close>

definition answering :: "string \<Rightarrow> real \<Rightarrow> inference_env" where
  "answering out secs =
     \<lparr>rss_before = Inr 104857600, start_time = 0,
      run_result = Inr \<lparr>returncode = 0, stdout = out, stderr = []\<rparr>,
      end_time = secs, rss_after = Inr 105906176\<rparr>"

definition timing_out :: inference_env where
  "timing_out =
     \<lparr>rss_before = Inr 104857600, start_time = 0,
      run_result = Inl (TimeoutExpired ''timed out after 120 seconds''),
      end_time = 120, rss_after = Inr 104857600\<rparr>"

definition exiting :: "string \<Rightarrow> inference_env" where
  "exiting err =
     \<lparr>rss_before = Inr 104857600, start_time = 0,
      run_result = Inr \<lparr>returncode = 1, stdout = [], stderr = err\<rparr>,
      end_time = 1, rss_after = Inr 104857600\<rparr>"

definition interrupted :: inference_env where
  "interrupted =
     \<lparr>rss_before = Inr 104857600, start_time = 0, run_result = Inl KeyboardInterrupt,
      end_time = 5, rss_after = Inr 104857600\<rparr>"

definition unreadable :: inference_env where
  "unreadable =
     \<lparr>rss_before = Inl (OtherException ''psutil.AccessDenied''), start_time = 0,
      run_result = Inr \<lparr>returncode = 0, stdout = ''ok'', stderr = []\<rparr>,
      end_time = 1, rss_after = Inr 104857600\<rparr>"

definition at_time :: "string \<Rightarrow> (nat \<Rightarrow> inference_env) \<Rightarrow> model_env" where
  "at_time ts envs = \<lparr>now = ts, inference_at = envs\<rparr>"

definition scenario_a :: model_env where
  "scenario_a =
     at_time ''2025-01-01T00:00:00''
       (\<lambda>i. if i = 0 then answering ''a'' (1 / 10)
            else if i = 1 then answering ''a b'' (1 / 10)
            else answering ''a b c'' (1 / 10))"

definition scenario_b :: model_env where
  "scenario_b = at_time ''2025-01-01T00:05:00'' (\<lambda>i. timing_out)"

definition uneven :: model_env where
  "uneven =
     at_time ''2025-01-01T00:10:00''
       (\<lambda>i. if i = 2 then answering ''a b'' 1 else answering ''a'' 1)"

definition one_in_three :: model_env where
  "one_in_three =
     at_time ''2025-01-01T00:15:00''
       (\<lambda>i. if i = 0 then answering ''a'' 1 else timing_out)"

text \<open>The reports that \<open>benchmark_model\<close> builds in these scenarios.\<close>

definition answered :: "nat \<Rightarrow> string \<Rightarrow> real \<Rightarrow> int \<Rightarrow> real \<Rightarrow> prompt_result" where
  "answered i resp secs tokens tps =
     \<lparr>name = test_prompt.name (init_test_prompts ! i),
      prompt = test_prompt.prompt (init_test_prompts ! i),
      response = resp,
      metrics =
        [(''total_time'', PFloat secs), (''tokens_generated'', PInt tokens),
         (''tokens_per_second'', PFloat tps), (''memory_delta_mb'', PFloat 1),
         (''response_length'', PInt (int (length resp)))]\<rparr>"

definition timed_out :: "nat \<Rightarrow> prompt_result" where
  "timed_out i =
     \<lparr>name = test_prompt.name (init_test_prompts ! i),
      prompt = test_prompt.prompt (init_test_prompts ! i),
      response = [],
      metrics = [(''error'', PStr ''Timeout after 120 seconds'')]\<rparr>"

definition scenario_a_report :: report where
  "scenario_a_report =
     \<lparr>model = ''m1'', timestamp = ''2025-01-01T00:00:00'',
      prompts = [answered 0 ''a'' (1 / 10) 1 10, answered 1 ''a b'' (1 / 10) 2 20,
                 answered 2 ''a b c'' (1 / 10) 3 30],
      average_tps = 20, average_time = 1 / 10, success_rate = Some 1\<rparr>"

definition scenario_b_report :: report where
  "scenario_b_report =
     \<lparr>model = ''m2'', timestamp = ''2025-01-01T00:05:00'',
      prompts = [timed_out 0, timed_out 1, timed_out 2],
      average_tps = 0, average_time = 0, success_rate = None\<rparr>"

definition uneven_report :: report where
  "uneven_report =
     \<lparr>model = ''m3'', timestamp = ''2025-01-01T00:10:00'',
      prompts = [answered 0 ''a'' 1 1 1, answered 1 ''a'' 1 1 1, answered 2 ''a b'' 1 2 2],
      average_tps = 133 / 100, average_time = 1, success_rate = Some 1\<rparr>"

definition one_in_three_report :: report where
  "one_in_three_report =
     \<lparr>model = ''m4'', timestamp = ''2025-01-01T00:15:00'',
      prompts = [answered 0 ''a'' 1 1 1, timed_out 1, timed_out 2],
      average_tps = 1, average_time = 1, success_rate = Some (33 / 100)\<rparr>"

text \<open>
  A run that has collected four reports, two of them with the same average, and an
  undisturbed \<open>save_results\<close>.
\<close>

definition collected :: "report list \<Rightarrow> state" where
  "collected rs =
     \<lparr>results = rs, test_prompts = init_test_prompts, files = Map.empty, console = []\<rparr>"

definition four_reports :: "report list" where
  "four_reports =
     [uneven_report, scenario_b_report, scenario_a_report, scenario_a_report\<lparr>model := ''m5''\<rparr>]"

definition calm :: save_env where
  "calm =
     \<lparr>today = ''2025-01-01'', now_iso = ''2025-01-01T01:00:00'', psutil_cpu_count = 8,
      virtual_memory_total = 17179869184, sys_version = ''3.11.4'',
      open_fault = None, dump_fault = None\<rparr>"

text \<open>
  The listing that \<open>ollama list\<close> prints for the given rows, under its header line; a
  model whose second prompt is interrupted from the keyboard after the first was answered;
  a model whose second prompt cannot take its memory reading after the first was answered.
\<close>

definition listing :: "string list \<Rightarrow> exn + completed" where
  "listing rows =
     Inr \<lparr>returncode = 0,
          stdout = concat (map (\<lambda>l. l @ [CHR 0x0A]) (''NAME ID SIZE MODIFIED'' # rows)),
          stderr = []\<rparr>"

definition cut_short :: model_env where
  "cut_short =
     at_time ''2025-01-01T00:20:00'' (\<lambda>j. if j = 0 then answering ''a'' 1 else interrupted)"

definition faulty :: model_env where
  "faulty =
     at_time ''2025-01-01T00:25:00'' (\<lambda>j. if j = 0 then answering ''a'' 1 else unreadable)"

definition version_ok :: "exn + completed" where
  "version_ok = Inr \<lparr>returncode = 0, stdout = ''ollama version is 0.5.1'', stderr = []\<rparr>"

text \<open>
  Scenario D: five models are discovered, two are benchmarked, the third is interrupted.
  A second run: the first of two models faults, the second is benchmarked.
\<close>

definition scenario_d :: world where
  "scenario_d =
     \<lparr>version_result = version_ok,
      list_result =
        listing [''m1 0a1 4.1GB today'', ''m3 0a3 2.0GB today'', ''m4 0a4 7.4GB today'',
                 ''m5 0a5 1.1GB today'', ''m6 0a6 3.8GB today''],
      model_env_at = (\<lambda>i. if i = 0 then scenario_a else if i = 1 then uneven else cut_short),
      save_env = calm, save_env_main = calm\<rparr>"

definition scenario_fault :: world where
  "scenario_fault =
     \<lparr>version_result = version_ok,
      list_result = listing [''m0 0a0 4.1GB today'', ''m1 0a1 4.1GB today''],
      model_env_at = (\<lambda>i. if i = 0 then faulty else scenario_a),
      save_env = calm, save_env_main = calm\<rparr>"

text \<open>The second run again, now interrupted from the keyboard while the results are dumped.\<close>

definition scenario_late :: world where
  "scenario_late = scenario_fault\<lparr>save_env := calm\<lparr>dump_fault := Some KeyboardInterrupt\<rparr>\<rparr>"

text \<open>
  Three runs that benchmark nothing: \<open>ollama list\<close> exits with a non-zero status, it
  cannot be started, and (scenario C) it lists no model. And a \<open>save_results\<close> during
  which the disk fills up.
\<close>

definition scenario_refused :: world where
  "scenario_refused =
     scenario_d\<lparr>list_result :=
       Inl (CalledProcessError ''Command ollama list returned non-zero exit status 1.'')\<rparr>"

definition scenario_absent :: world where
  "scenario_absent =
     scenario_d\<lparr>list_result := Inl (FileNotFoundError ''No such file or directory: ollama'')\<rparr>"

definition scenario_c :: world where
  "scenario_c = scenario_d\<lparr>list_result := listing []\<rparr>"

definition disk_full :: save_env where
  "disk_full =
     calm\<lparr>now_iso := ''2025-01-01T02:00:00'',
          dump_fault := Some (OtherException ''No space left on device'')\<rparr>"

definition later :: save_env where
  "later = calm\<lparr>now_iso := ''2025-01-01T03:00:00''\<rparr>"

section \<open>Properties\<close>

lemmas scenario_defs =
  answering_def timing_out_def exiting_def interrupted_def unreadable_def at_time_def
  scenario_a_def scenario_b_def uneven_def one_in_three_def

lemmas inference_defs =
  run_inference_def run_inference_body_def count_tokens_def split_def strip_def
  is_space_def py_round_def round_half_even_def Let_def

subsection \<open>Counting tokens\<close>





lemma concat_split_from: "concat (split_from cur s) = cur @ filter (\<lambda>c. \<not> is_space c) s"
  by (induction cur s rule: split_from.induct) auto

subsection \<open>Rounding\<close>

lemma round_half_even_close: "\<bar>real_of_int (round_half_even y) - y\<bar> \<le> 1 / 2"
  unfolding round_half_even_def Let_def by (auto; linarith)

lemma py_round_close: "\<bar>py_round x 2 - x\<bar> \<le> 1 / 200"
  using round_half_even_close [of "x * 100"]
  unfolding py_round_def by (simp add: field_simps abs_le_iff)


lemma py_round_unit:
  assumes "0 \<le> x" and "x \<le> 1"
  shows "0 \<le> py_round x 2 \<and> py_round x 2 \<le> 1"
proof -
  have lo: "0 \<le> round_half_even y" if "0 \<le> y" for y
    using that unfolding round_half_even_def Let_def by (auto; linarith)
  have hi: "round_half_even y \<le> 100" if "y \<le> 100" for y
  proof -
    have "\<lfloor>y\<rfloor> \<le> 100" using that by linarith
    moreover have "\<lfloor>y\<rfloor> = 100 \<Longrightarrow> y - of_int \<lfloor>y\<rfloor> < 1 / 2" using that by linarith
    ultimately show ?thesis
      unfolding round_half_even_def Let_def by (auto; linarith)
  qed
  from lo [of "x * 100"] hi [of "x * 100"] assms show ?thesis
    unfolding py_round_def by (simp add: field_simps)
qed

subsection \<open>One inference\<close>


lemma run_inference_answering_ok:
  "run_inference (answering ''ok'' 3) =
     Inr (''ok'', 3, 1 / 3,
          [(''total_time'', PFloat 3), (''tokens_generated'', PInt 1),
           (''tokens_per_second'', PFloat (33 / 100)), (''memory_delta_mb'', PFloat 1),
           (''response_length'', PInt 2)])"
  by (simp add: scenario_defs inference_defs)




subsection \<open>One model\<close>

lemmas report_defs =
  answered_def timed_out_def scenario_a_report_def scenario_b_report_def uneven_report_def
  one_in_three_report_def

lemma prompt_loop_tally:
  "prompt_loop envs i tps (ps, a, b, n) = Inr (ps', a', b', n') \<Longrightarrow>
     a' = a + sum_list (map throughput
            (concat (map (\<lambda>j. success_of (run_inference (envs (i + j)))) [0..<length tps]))) \<and>
     b' = b + sum_list (map elapsed
            (concat (map (\<lambda>j. success_of (run_inference (envs (i + j)))) [0..<length tps]))) \<and>
     n' = n + length
            (concat (map (\<lambda>j. success_of (run_inference (envs (i + j)))) [0..<length tps])) \<and>
     length ps' = length ps + length tps"
proof (induction tps arbitrary: i ps a b n)
  case Nil
  then show ?case by simp
next
  case (Cons tp tps)
  from Cons.prems obtain resp t v m where run: "run_inference (envs i) = Inr (resp, t, v, m)"
    by (cases "run_inference (envs i)") (auto split: prod.splits)
  have shift: "map (\<lambda>j. success_of (run_inference (envs (i + j)))) [0..<length (tp # tps)]
       = success_of (run_inference (envs i)) #
         map (\<lambda>j. success_of (run_inference (envs (Suc i + j)))) [0..<length tps]"
    by (simp add: map_upt_Suc del: upt_Suc)
  show ?case
  proof (cases "has_key m ''error''")
    case True
    with Cons.prems run
    have "prompt_loop envs (Suc i) tps
            (ps @ [\<lparr>name = test_prompt.name tp, prompt = test_prompt.prompt tp,
                    response = (if length resp > 200 then take 200 resp @ ''...'' else resp),
                    metrics = m\<rparr>], a, b, n) = Inr (ps', a', b', n')"
      by (simp add: Let_def)
    from Cons.IH [OF this] True run show ?thesis
      unfolding shift by simp
  next
    case False
    with Cons.prems run
    have "prompt_loop envs (Suc i) tps
            (ps @ [\<lparr>name = test_prompt.name tp, prompt = test_prompt.prompt tp,
                    response = (if length resp > 200 then take 200 resp @ ''...'' else resp),
                    metrics = m\<rparr>], a + v, b + t, Suc n) = Inr (ps', a', b', n')"
      by (simp add: Let_def)
    from Cons.IH [OF this] False run show ?thesis
      unfolding shift by simp
  qed
qed

lemma benchmark_model_report:
  assumes "benchmark_model env mname tps = Inr r"
  shows "model r = mname \<and> timestamp r = now env \<and> length (report.prompts r) = length tps \<and>
         average_tps r =
           (if successful (inference_at env) (length tps) = [] then 0
            else py_round (mean (map throughput (successful (inference_at env) (length tps)))) 2) \<and>
         average_time r =
           (if successful (inference_at env) (length tps) = [] then 0
            else py_round (mean (map elapsed (successful (inference_at env) (length tps)))) 2) \<and>
         success_rate r =
           (if successful (inference_at env) (length tps) = [] then None
            else Some (py_round (real (length (successful (inference_at env) (length tps))) /
                                 real (length tps)) 2))"
proof -
  from assms obtain ps a b n where
    loop: "prompt_loop (inference_at env) 0 tps ([], 0, 0, 0) = Inr (ps, a, b, n)"
    by (auto simp: benchmark_model_def split: sum.splits)
  from prompt_loop_tally [OF loop]
  have tally: "a = sum_list (map throughput (successful (inference_at env) (length tps)))"
    "b = sum_list (map elapsed (successful (inference_at env) (length tps)))"
    "n = length (successful (inference_at env) (length tps))"
    "length ps = length tps"
    by (simp_all add: successful_def)
  from assms loop show ?thesis
    by (auto simp: benchmark_model_def Let_def mean_def tally split: if_splits)
qed

lemma length_successful: "length (successful envs n) \<le> n"
proof (induction n)
  case 0
  then show ?case by (simp add: successful_def)
next
  case (Suc n)
  have "length (success_of x) \<le> 1" for x
    by (cases x rule: success_of.cases) simp_all
  from this [of "run_inference (envs n)"] Suc show ?case
    by (simp add: successful_def)
qed

lemma scenario_a_returns:
  "benchmark_model scenario_a ''m1'' init_test_prompts = Inr scenario_a_report"
  by (simp add: benchmark_model_def init_test_prompts_def scenario_defs report_defs inference_defs)

lemma scenario_b_returns:
  "benchmark_model scenario_b ''m2'' init_test_prompts = Inr scenario_b_report"
  by (simp add: benchmark_model_def init_test_prompts_def scenario_defs report_defs inference_defs)

lemma uneven_returns:
  "benchmark_model uneven ''m3'' init_test_prompts = Inr uneven_report"
  by (simp add: benchmark_model_def init_test_prompts_def scenario_defs report_defs inference_defs)

lemma one_in_three_returns:
  "benchmark_model one_in_three ''m4'' init_test_prompts = Inr one_in_three_report"
  by (simp add: benchmark_model_def init_test_prompts_def scenario_defs report_defs inference_defs)



lemma successful_one_in_three:
  "map throughput (successful (inference_at one_in_three) 3) = [1]"
  by (simp add: successful_def numeral_3_eq_3 scenario_defs inference_defs)

lemma successful_scenario_b: "successful (inference_at scenario_b) 3 = []"
  by (simp add: successful_def numeral_3_eq_3 scenario_defs inference_defs)




text \<open>
  C3, as stated, fails: one success in three prompts is a third, and the report records
  0.33.
\<close>

theorem success_rate_not_exact:
  "map_sum id success_rate (benchmark_model one_in_three ''m4'' init_test_prompts) =
     Inr (Some (33 / 100)) \<and>
   length (successful (inference_at one_in_three) (length init_test_prompts)) = 1 \<and>
   length init_test_prompts = 3 \<and>
   map_sum id success_rate (benchmark_model one_in_three ''m4'' init_test_prompts) \<noteq>
     Inr (Some (1 / 3))"
proof -
  have three: "length init_test_prompts = 3"
    by (simp add: init_test_prompts_def)
  have "length (map throughput (successful (inference_at one_in_three) 3)) = 1"
    by (simp only: successful_one_in_three) simp
  then show ?thesis
    by (simp add: three one_in_three_returns one_in_three_report_def)
qed

text \<open>
  When every prompt fails, the report has no \<open>success_rate\<close> at all: the key is only
  assigned next to the two averages, under \<open>successful_tests > 0\<close>.
\<close>

lemma success_rate_absent_when_all_fail:
  "map_sum id success_rate (benchmark_model scenario_b ''m2'' init_test_prompts) = Inr None \<and>
   map_sum id average_tps (benchmark_model scenario_b ''m2'' init_test_prompts) = Inr 0"
  by (simp add: scenario_b_returns scenario_b_report_def)

text \<open>
  C3, amended: in every report of a model with at least one successful prompt,
  \<open>success_rate\<close> is the number of successful inferences divided by the number of
  prompts attempted, rounded to two decimal places; it lies between 0 and 1 and differs
  from the exact quotient by at most 0.005.
\<close>

theorem success_rate_of_report:
  assumes "benchmark_model env mname tps = Inr r"
    and "successful (inference_at env) (length tps) \<noteq> []"
  shows "success_rate r =
           Some (py_round (real (length (successful (inference_at env) (length tps))) /
                           real (length tps)) 2) \<and>
         0 \<le> the (success_rate r) \<and> the (success_rate r) \<le> 1 \<and>
         \<bar>the (success_rate r) -
            real (length (successful (inference_at env) (length tps))) / real (length tps)\<bar>
           \<le> 1 / 200"
proof -
  let ?n = "length (successful (inference_at env) (length tps))"
  have rate: "success_rate r = Some (py_round (real ?n / real (length tps)) 2)"
    using benchmark_model_report [OF assms(1)] assms(2) by simp
  have "?n \<le> length tps"
    by (rule length_successful)
  then have "0 \<le> real ?n / real (length tps)" and "real ?n / real (length tps) \<le> 1"
    by (simp_all add: divide_le_eq_1)
  from py_round_unit [OF this] py_round_close [of "real ?n / real (length tps)"] rate
  show ?thesis by simp
qed

theorem success_rate_of_report_witness:
  "benchmark_model one_in_three ''m4'' init_test_prompts = Inr one_in_three_report \<and>
   successful (inference_at one_in_three) (length init_test_prompts) \<noteq> [] \<and>
   length (successful (inference_at one_in_three) (length init_test_prompts)) = 1 \<and>
   success_rate one_in_three_report = Some (py_round (1 / 3) 2) \<and>
   success_rate one_in_three_report = Some (33 / 100)"
proof -
  have three: "length init_test_prompts = 3"
    by (simp add: init_test_prompts_def)
  have "length (map throughput (successful (inference_at one_in_three) 3)) = 1"
    by (simp only: successful_one_in_three) simp
  then have one3: "length (successful (inference_at one_in_three) 3) = 1"
    by simp
  then have one: "length (successful (inference_at one_in_three) (length init_test_prompts)) = 1"
    by (simp add: three)
  then have some: "successful (inference_at one_in_three) (length init_test_prompts) \<noteq> []"
    by auto
  from success_rate_of_report [OF one_in_three_returns some]
  have "success_rate one_in_three_report = Some (py_round (1 / 3) 2)"
    by (simp add: one3 three)
  moreover have "success_rate one_in_three_report = Some (33 / 100)"
    by (simp add: one_in_three_report_def)
  ultimately show ?thesis
    using one_in_three_returns one some by simp
qed



subsection \<open>What an inference returns\<close>

lemma run_inference_exiting:
  "run_inference (exiting ''model not found'') =
     Inr ([], 0, 0, [(''error'', PStr ''model not found'')])"
  by (simp add: scenario_defs inference_defs)

lemma run_inference_timing_out:
  "run_inference timing_out = Inr ([], 0, 0, [(''error'', PStr ''Timeout after 120 seconds'')])"
  by (simp add: scenario_defs inference_defs)

lemma run_inference_interrupted: "run_inference interrupted = Inl KeyboardInterrupt"
  by (simp add: scenario_defs inference_defs)

lemma run_inference_unreadable:
  "run_inference unreadable = Inl (OtherException ''psutil.AccessDenied'')"
  by (simp add: scenario_defs inference_defs)

text \<open>
  C4, as stated, fails: when the user interrupts the backend, \<open>run_inference\<close> returns
  neither a success nor a failure; the \<open>KeyboardInterrupt\<close> leaves it.
\<close>

theorem run_inference_propagates_interrupt:
  "run_result interrupted = Inl KeyboardInterrupt \<and>
   run_inference interrupted = Inl KeyboardInterrupt \<and>
   isl (run_inference interrupted)"
  by (simp add: run_inference_interrupted) (simp add: interrupted_def)

text \<open>
  C4, amended: an inference that returns yields exactly one of a success, whose
  dictionary holds the five metrics and no \<open>error\<close>, or a failure, whose dictionary
  holds \<open>error\<close> and nothing else (with an empty response and zero time and throughput).
  After the initial memory reading, a non-zero exit status gives the failure with the
  text of standard error, an expired timeout gives \<open>Timeout after 120 seconds\<close>, any other
  fault of class \<open>Exception\<close> gives its message, and the only thing that leaves the
  function is a keyboard interrupt, which it does not catch.
\<close>

theorem run_inference_outcomes:
  "(run_inference env = Inr (resp, t, v, m) \<longrightarrow>
      (has_key m ''error'' \<and> map fst m = [''error''] \<and> resp = [] \<and> t = 0 \<and> v = 0) \<or>
      (\<not> has_key m ''error'' \<and>
       map fst m = [''total_time'', ''tokens_generated'', ''tokens_per_second'',
                    ''memory_delta_mb'', ''response_length''])) \<and>
   (rss_before env = Inr rb \<and> run_result env = Inr result \<and> returncode result \<noteq> 0 \<longrightarrow>
      run_inference env = Inr ([], 0, 0, [(''error'', PStr (stderr result))])) \<and>
   (rss_before env = Inr rb \<and> run_result env = Inl (TimeoutExpired s) \<longrightarrow>
      run_inference env = Inr ([], 0, 0, [(''error'', PStr ''Timeout after 120 seconds'')])) \<and>
   (rss_before env = Inr rb \<and> run_result env = Inl e \<and> is_Exception e \<and>
    (\<forall>s'. e \<noteq> TimeoutExpired s') \<longrightarrow>
      run_inference env = Inr ([], 0, 0, [(''error'', PStr (str_exn e))])) \<and>
   (rss_before env = Inr rb \<and> run_result env = Inl KeyboardInterrupt \<longrightarrow>
      run_inference env = Inl KeyboardInterrupt) \<and>
   (rss_before env = Inr rb \<and> run_inference env = Inl e' \<longrightarrow> e' = KeyboardInterrupt)"
proof -
  have shape: "(has_key m ''error'' \<and> map fst m = [''error''] \<and> resp = [] \<and> t = 0 \<and> v = 0) \<or>
      (\<not> has_key m ''error'' \<and>
       map fst m = [''total_time'', ''tokens_generated'', ''tokens_per_second'',
                    ''memory_delta_mb'', ''response_length''])"
    if "run_inference env = Inr (resp, t, v, m)"
    using that
    by (auto simp: run_inference_def run_inference_body_def Let_def
             split: sum.splits exn.splits if_splits)
  have status: "run_inference env = Inr ([], 0, 0, [(''error'', PStr (stderr result))])"
    if "rss_before env = Inr rb" "run_result env = Inr result" "returncode result \<noteq> 0"
    using that by (simp add: run_inference_def run_inference_body_def)
  have timeout: "run_inference env = Inr ([], 0, 0, [(''error'', PStr ''Timeout after 120 seconds'')])"
    if "rss_before env = Inr rb" "run_result env = Inl (TimeoutExpired s)"
    using that by (simp add: run_inference_def run_inference_body_def)
  have other: "run_inference env = Inr ([], 0, 0, [(''error'', PStr (str_exn e))])"
    if "rss_before env = Inr rb" "run_result env = Inl e" "is_Exception e"
      "\<forall>s'. e \<noteq> TimeoutExpired s'"
    using that by (cases e) (simp_all add: run_inference_def run_inference_body_def)
  have interrupt: "run_inference env = Inl KeyboardInterrupt"
    if "rss_before env = Inr rb" "run_result env = Inl KeyboardInterrupt"
    using that by (simp add: run_inference_def run_inference_body_def)
  have leaves: "e' = KeyboardInterrupt"
    if "rss_before env = Inr rb" "run_inference env = Inl e'"
    using that
    by (cases e')
       (auto simp: run_inference_def run_inference_body_def Let_def
             split: sum.splits exn.splits if_splits)
  from shape status timeout other interrupt leaves show ?thesis
    by blast
qed

theorem run_inference_outcomes_witness:
  "run_inference (exiting ''model not found'') =
     Inr ([], 0, 0, [(''error'', PStr ''model not found'')]) \<and>
   run_inference timing_out = Inr ([], 0, 0, [(''error'', PStr ''Timeout after 120 seconds'')]) \<and>
   run_inference interrupted = Inl KeyboardInterrupt \<and>
   map fst (snd (snd (snd (projr (run_inference (answering ''ok'' 3)))))) =
     [''total_time'', ''tokens_generated'', ''tokens_per_second'', ''memory_delta_mb'',
      ''response_length'']"
proof -
  have a: "rss_before (exiting ''model not found'') = Inr 104857600 \<and>
           run_result (exiting ''model not found'') =
             Inr \<lparr>returncode = 1, stdout = [], stderr = ''model not found''\<rparr> \<and>
           returncode \<lparr>returncode = 1, stdout = [], stderr = ''model not found''\<rparr> \<noteq> 0"
    by (simp add: exiting_def)
  have b: "rss_before timing_out = Inr 104857600 \<and>
           run_result timing_out = Inl (TimeoutExpired ''timed out after 120 seconds'')"
    by (simp add: timing_out_def)
  have c: "rss_before interrupted = Inr 104857600 \<and>
           run_result interrupted = Inl KeyboardInterrupt"
    by (simp add: interrupted_def)
  from a run_inference_outcomes
         [of "exiting ''model not found''" _ _ _ _ 104857600
             "\<lparr>returncode = 1, stdout = [], stderr = ''model not found''\<rparr>"]
  have "run_inference (exiting ''model not found'') =
          Inr ([], 0, 0, [(''error'', PStr ''model not found'')])"
    by simp
  moreover from b run_inference_outcomes
         [of timing_out _ _ _ _ 104857600 _ "''timed out after 120 seconds''"]
  have "run_inference timing_out =
          Inr ([], 0, 0, [(''error'', PStr ''Timeout after 120 seconds'')])"
    by blast
  moreover from c run_inference_outcomes [of interrupted _ _ _ _ 104857600]
  have "run_inference interrupted = Inl KeyboardInterrupt"
    by blast
  moreover from run_inference_outcomes
         [of "answering ''ok'' 3" "''ok''" 3 "1 / 3"
             "[(''total_time'', PFloat 3), (''tokens_generated'', PInt 1),
               (''tokens_per_second'', PFloat (33 / 100)), (''memory_delta_mb'', PFloat 1),
               (''response_length'', PInt 2)]"]
       run_inference_answering_ok
  have "map fst (snd (snd (snd (projr (run_inference (answering ''ok'' 3)))))) =
     [''total_time'', ''tokens_generated'', ''tokens_per_second'', ''memory_delta_mb'',
      ''response_length'']"
    by simp
  ultimately show ?thesis
    by blast
qed

subsection \<open>The summary\<close>

lemma mset_sorted_reverse: "mset (sorted_reverse k xs) = mset xs"
  by (simp add: sorted_reverse_def)

lemma sorted_reverse_descending: "sorted_wrt (\<lambda>a b. k a \<ge> k b) (sorted_reverse k xs)"
proof -
  have "sorted_wrt (\<lambda>a b. k a \<le> k b) (sort_key k (rev xs))"
    using sorted_sort_key [of k "rev xs"] by (simp add: sorted_map)
  then show ?thesis
    by (simp add: sorted_reverse_def sorted_wrt_rev)
qed

lemma sorted_reverse_stable:
  "filter (\<lambda>y. k y = c) (sorted_reverse k xs) = filter (\<lambda>y. k y = c) xs"
proof -
  have "filter (\<lambda>y. k y = c) (sorted_reverse k xs)
        = rev (filter (\<lambda>y. k y = c) (sort_key k (rev xs)))"
    by (simp add: sorted_reverse_def rev_filter)
  also have "\<dots> = rev (filter (\<lambda>y. k y = c) (rev xs))"
    by (simp only: sort_key_stable)
  also have "\<dots> = filter (\<lambda>y. k y = c) xs"
    by (simp add: rev_filter)
  finally show ?thesis .
qed

lemma set_sorted_results: "set (sorted_results rs) = {r \<in> set rs. average_tps r > 0}"
proof -
  have "set (sorted_results rs) = set_mset (mset (sorted_results rs))"
    by simp
  also have "\<dots> = set (filter (\<lambda>r. average_tps r > 0) rs)"
    unfolding sorted_results_def mset_sorted_reverse by simp
  finally show ?thesis by simp
qed

lemma fastest_is_maximal:
  assumes "sorted_results rs = fastest # rest" and "r \<in> set rs"
  shows "average_tps r \<le> average_tps fastest"
proof (cases "average_tps r > 0")
  case True
  with assms(2) have "r \<in> set (sorted_results rs)"
    by (simp add: set_sorted_results)
  moreover have "sorted_wrt (\<lambda>a b. average_tps a \<ge> average_tps b) (sorted_results rs)"
    unfolding sorted_results_def by (rule sorted_reverse_descending)
  then have "sorted_wrt (\<lambda>a b. average_tps a \<ge> average_tps b) (fastest # rest)"
    by (simp only: assms(1))
  ultimately show ?thesis
    using assms(1) by auto
next
  case False
  have "fastest \<in> set (sorted_results rs)"
    using assms(1) by simp
  then have "average_tps fastest > 0"
    by (simp add: set_sorted_results)
  with False show ?thesis by simp
qed

lemma sorted_results_four:
  "sorted_results four_reports =
     [scenario_a_report, scenario_a_report\<lparr>model := ''m5''\<rparr>, uneven_report]"
  by (simp add: sorted_results_def sorted_reverse_def four_reports_def report_defs)

lemma sorted_results_scenario_b: "sorted_results [scenario_b_report] = []"
  by (simp add: sorted_results_def sorted_reverse_def report_defs)

text \<open>
  C5, as stated, fails: a run whose only model failed on every prompt has a report, none
  with a positive average, and the summary is an empty table, not the message that there
  are no results.
\<close>

theorem summary_of_failures_is_empty_table:
  "filter (\<lambda>r. average_tps r > 0) [scenario_b_report] = [] \<and>
   summary_lines [scenario_b_report] = [SummaryHeader, Rule, Rule] \<and>
   NoResults \<notin> set (summary_lines [scenario_b_report])"
  by (simp add: summary_lines_def sorted_results_scenario_b) (simp add: report_defs)

text \<open>
  C5, amended: the summary keeps the reports with a positive \<open>average_tps\<close>, in
  descending order of \<open>average_tps\<close>, reports with the same average in their order of
  discovery; it prints one row for each of them and names the first as the fastest, which
  has the greatest average of all reports. Reports with an average of 0 or less have no
  row, and an undisturbed \<open>save_results\<close> still writes every report. With no report at
  all the summary is the message that there are no results; with reports of which none
  has a positive average it is the table without rows and without a fastest model.
\<close>

theorem summary_ranks_reports:
  "mset (sorted_results rs) = mset (filter (\<lambda>r. average_tps r > 0) rs) \<and>
   sorted_wrt (\<lambda>a b. average_tps a \<ge> average_tps b) (sorted_results rs) \<and>
   filter (\<lambda>r. average_tps r = k) (sorted_results rs) =
     filter (\<lambda>r. average_tps r = k) (filter (\<lambda>r. average_tps r > 0) rs) \<and>
   (sorted_results rs = fastest # rest \<longrightarrow>
      summary_lines rs =
        [SummaryHeader, Rule] @ map summary_row (fastest # rest) @
        [Rule, Fastest (model fastest) (average_tps fastest)] \<and>
      (\<forall>r \<in> set rs. average_tps r \<le> average_tps fastest)) \<and>
   (rs = [] \<longrightarrow> summary_lines rs = [NoResults]) \<and>
   (rs \<noteq> [] \<and> (\<forall>r \<in> set rs. average_tps r \<le> 0) \<longrightarrow>
      summary_lines rs = [SummaryHeader, Rule, Rule]) \<and>
   (open_fault env = None \<and> dump_fault env = None \<longrightarrow>
      (\<exists>d. files (fst (save_results env st)) (results_filename env) = Some (Artifact d) \<and>
           benchmark_data.results d = results st))"
proof -
  have ranked: "summary_lines rs =
        [SummaryHeader, Rule] @ map summary_row (fastest # rest) @
        [Rule, Fastest (model fastest) (average_tps fastest)] \<and>
      (\<forall>r \<in> set rs. average_tps r \<le> average_tps fastest)"
    if top: "sorted_results rs = fastest # rest"
  proof -
    have "rs \<noteq> []"
      using top by (auto simp: sorted_results_def sorted_reverse_def)
    then have "summary_lines rs =
        [SummaryHeader, Rule] @ map summary_row (fastest # rest) @
        [Rule, Fastest (model fastest) (average_tps fastest)]"
      by (simp add: summary_lines_def top)
    with fastest_is_maximal [OF top] show ?thesis by blast
  qed
  have none: "summary_lines rs = [SummaryHeader, Rule, Rule]"
    if "rs \<noteq> []" and "\<forall>r \<in> set rs. average_tps r \<le> 0"
  proof -
    have "set (sorted_results rs) = {}"
      using that(2) by (auto simp: set_sorted_results)
    then have "sorted_results rs = []" by simp
    with that(1) show ?thesis by (simp add: summary_lines_def)
  qed
  have saved: "\<exists>d. files (fst (save_results env st)) (results_filename env) = Some (Artifact d) \<and>
           benchmark_data.results d = results st"
    if "open_fault env = None" and "dump_fault env = None"
    using that by (simp add: save_results_def Let_def make_benchmark_data_def)
  have "mset (sorted_results rs) = mset (filter (\<lambda>r. average_tps r > 0) rs)"
    by (simp add: sorted_results_def mset_sorted_reverse)
  moreover have "sorted_wrt (\<lambda>a b. average_tps a \<ge> average_tps b) (sorted_results rs)"
    unfolding sorted_results_def by (rule sorted_reverse_descending)
  moreover have "filter (\<lambda>r. average_tps r = k) (sorted_results rs) =
     filter (\<lambda>r. average_tps r = k) (filter (\<lambda>r. average_tps r > 0) rs)"
    unfolding sorted_results_def by (rule sorted_reverse_stable)
  moreover have "rs = [] \<longrightarrow> summary_lines rs = [NoResults]"
    by (simp add: summary_lines_def)
  ultimately show ?thesis
    using ranked none saved by blast
qed

theorem summary_ranks_reports_witness:
  "sorted_results four_reports =
     [scenario_a_report, scenario_a_report\<lparr>model := ''m5''\<rparr>, uneven_report] \<and>
   summary_lines four_reports =
     [SummaryHeader, Rule, Row ''m1'' 20 (1 / 10) 100, Row ''m5'' 20 (1 / 10) 100,
      Row ''m3'' (133 / 100) 1 100, Rule, Fastest ''m1'' 20] \<and>
   summary_lines [] = [NoResults] \<and>
   summary_lines [scenario_b_report] = [SummaryHeader, Rule, Rule] \<and>
   open_fault calm = None \<and> dump_fault calm = None \<and>
   map_option (\<lambda>f. case f of Artifact d \<Rightarrow> benchmark_data.results d | HalfWritten \<Rightarrow> [])
     (files (fst (save_results calm (collected four_reports))) (results_filename calm)) =
     Some four_reports"
proof -
  note ranks = summary_ranks_reports
    [of four_reports 20 scenario_a_report
        "[scenario_a_report\<lparr>model := ''m5''\<rparr>, uneven_report]" calm "collected four_reports"]
  from ranks sorted_results_four
  have "summary_lines four_reports =
          [SummaryHeader, Rule] @
          map summary_row [scenario_a_report, scenario_a_report\<lparr>model := ''m5''\<rparr>, uneven_report] @
          [Rule, Fastest (model scenario_a_report) (average_tps scenario_a_report)]"
    by blast
  then have table: "summary_lines four_reports =
     [SummaryHeader, Rule, Row ''m1'' 20 (1 / 10) 100, Row ''m5'' 20 (1 / 10) 100,
      Row ''m3'' (133 / 100) 1 100, Rule, Fastest ''m1'' 20]"
    by (simp add: summary_row_def report_defs)
  have quiet: "open_fault calm = None \<and> dump_fault calm = None"
    by (simp add: calm_def)
  with ranks
  have "\<exists>d. files (fst (save_results calm (collected four_reports))) (results_filename calm)
              = Some (Artifact d) \<and>
            benchmark_data.results d = results (collected four_reports)"
    by blast
  then have kept: "map_option (\<lambda>f. case f of Artifact d \<Rightarrow> benchmark_data.results d | HalfWritten \<Rightarrow> [])
     (files (fst (save_results calm (collected four_reports))) (results_filename calm)) =
     Some four_reports"
    by (auto simp: collected_def)
  from summary_ranks_reports [of "[]"]
  have empty: "summary_lines [] = [NoResults]"
    by simp
  have "average_tps scenario_b_report \<le> 0"
    by (simp add: scenario_b_report_def)
  with summary_ranks_reports [of "[scenario_b_report]"]
  have failed: "summary_lines [scenario_b_report] = [SummaryHeader, Rule, Rule]"
    by simp
  from sorted_results_four table empty failed quiet kept show ?thesis
    by blast
qed

subsection \<open>The loop over the models\<close>

lemma model_loop_keeps: "test_prompts (model_loop envs n ms st) = test_prompts st \<and>
   files (model_loop envs n ms st) = files st"
proof (induction ms arbitrary: n st)
  case Nil
  then show ?case by simp
next
  case (Cons m ms)
  show ?case
  proof (cases "benchmark_model (envs n) m (test_prompts st)")
    case (Inr r)
    then show ?thesis by (simp add: Cons.IH)
  next
    case (Inl e)
    then show ?thesis by (cases e) (simp_all add: Cons.IH)
  qed
qed

lemma outcomes_shift:
  "map (\<lambda>i. benchmark_model (envs (n + i)) ((m # ms) ! i) tps) [0..<length (m # ms)] =
     benchmark_model (envs n) m tps #
     map (\<lambda>i. benchmark_model (envs (Suc n + i)) (ms ! i) tps) [0..<length ms]"
  by (simp add: map_upt_Suc del: upt_Suc)

lemma model_loop_without_interrupt:
  assumes "\<forall>i<length ms.
             benchmark_model (envs (n + i)) (ms ! i) (test_prompts st) \<noteq> Inl KeyboardInterrupt"
  shows "model_loop envs n ms st =
           st\<lparr>results := results st @
                 reports_of (map (\<lambda>i. benchmark_model (envs (n + i)) (ms ! i) (test_prompts st))
                               [0..<length ms]),
              console := console st @
                 error_lines (zip ms
                   (map (\<lambda>i. benchmark_model (envs (n + i)) (ms ! i) (test_prompts st))
                      [0..<length ms]))\<rparr>"
  using assms
proof (induction ms arbitrary: n st)
  case Nil
  then show ?case by simp
next
  case (Cons m ms)
  from Cons.prems have here: "benchmark_model (envs n) m (test_prompts st) \<noteq> Inl KeyboardInterrupt"
    by auto
  from Cons.prems have later: "\<forall>i<length ms.
      benchmark_model (envs (Suc n + i)) (ms ! i) (test_prompts st) \<noteq> Inl KeyboardInterrupt"
    by auto
  show ?case
  proof (cases "benchmark_model (envs n) m (test_prompts st)")
    case (Inr r)
    from later have "model_loop envs (Suc n) ms (st\<lparr>results := results st @ [r]\<rparr>) =
        (st\<lparr>results := results st @ [r]\<rparr>)
          \<lparr>results := results (st\<lparr>results := results st @ [r]\<rparr>) @
             reports_of (map (\<lambda>i. benchmark_model (envs (Suc n + i)) (ms ! i) (test_prompts st))
                           [0..<length ms]),
           console := console (st\<lparr>results := results st @ [r]\<rparr>) @
             error_lines (zip ms
               (map (\<lambda>i. benchmark_model (envs (Suc n + i)) (ms ! i) (test_prompts st))
                  [0..<length ms]))\<rparr>"
      using Cons.IH [of "Suc n" "st\<lparr>results := results st @ [r]\<rparr>"] by simp
    with Inr show ?thesis
      unfolding outcomes_shift by simp
  next
    case (Inl e)
    with here have e: "e \<noteq> KeyboardInterrupt" by simp
    from later have "model_loop envs (Suc n) ms (st\<lparr>console := console st @ [ErrorBenchmarking m e]\<rparr>) =
        (st\<lparr>console := console st @ [ErrorBenchmarking m e]\<rparr>)
          \<lparr>results := results (st\<lparr>console := console st @ [ErrorBenchmarking m e]\<rparr>) @
             reports_of (map (\<lambda>i. benchmark_model (envs (Suc n + i)) (ms ! i) (test_prompts st))
                           [0..<length ms]),
           console := console (st\<lparr>console := console st @ [ErrorBenchmarking m e]\<rparr>) @
             error_lines (zip ms
               (map (\<lambda>i. benchmark_model (envs (Suc n + i)) (ms ! i) (test_prompts st))
                  [0..<length ms]))\<rparr>"
      using Cons.IH [of "Suc n" "st\<lparr>console := console st @ [ErrorBenchmarking m e]\<rparr>"] by simp
    with Inl e show ?thesis
      unfolding outcomes_shift by (cases e) simp_all
  qed
qed

lemma model_loop_interrupted_after:
  assumes "k < length ms"
    and "\<forall>i<k. benchmark_model (envs (n + i)) (ms ! i) (test_prompts st) = Inr (rs i)"
    and "benchmark_model (envs (n + k)) (ms ! k) (test_prompts st) = Inl KeyboardInterrupt"
  shows "model_loop envs n ms st =
           st\<lparr>results := results st @ map rs [0..<k], console := console st @ [Interrupted]\<rparr>"
  using assms
proof (induction ms arbitrary: k n st rs)
  case Nil
  then show ?case by simp
next
  case (Cons m ms)
  show ?case
  proof (cases k)
    case 0
    with Cons.prems show ?thesis by simp
  next
    case (Suc j)
    with Cons.prems have first: "benchmark_model (envs n) m (test_prompts st) = Inr (rs 0)"
      by auto
    from Suc Cons.prems have j: "j < length ms" by simp
    from Suc Cons.prems have before: "\<forall>i<j.
        benchmark_model (envs (Suc n + i)) (ms ! i)
          (test_prompts (st\<lparr>results := results st @ [rs 0]\<rparr>)) = Inr ((rs \<circ> Suc) i)"
      by auto
    from Suc Cons.prems have at: "benchmark_model (envs (Suc n + j)) (ms ! j)
          (test_prompts (st\<lparr>results := results st @ [rs 0]\<rparr>)) = Inl KeyboardInterrupt"
      by simp
    have "map rs [0..<Suc j] = rs 0 # map (rs \<circ> Suc) [0..<j]"
      by (simp add: map_upt_Suc del: upt_Suc)
    with Cons.IH [OF j before at] first Suc show ?thesis
      by simp
  qed
qed

lemma cut_short_interrupted:
  "benchmark_model cut_short ''m4'' init_test_prompts = Inl KeyboardInterrupt"
  by (simp add: benchmark_model_def init_test_prompts_def cut_short_def scenario_defs
        inference_defs)

lemma faulty_raises:
  "benchmark_model faulty ''m0'' init_test_prompts = Inl (OtherException ''psutil.AccessDenied'')"
  by (simp add: benchmark_model_def init_test_prompts_def faulty_def scenario_defs
        inference_defs)

lemma first_prompt_answered:
  "run_inference (answering ''a'' 1) =
     Inr (''a'', 1, 1,
          [(''total_time'', PFloat 1), (''tokens_generated'', PInt 1),
           (''tokens_per_second'', PFloat 1), (''memory_delta_mb'', PFloat 1),
           (''response_length'', PInt 1)])"
  by (simp add: scenario_defs inference_defs)

lemma discovered_scenario_d:
  "get_available_models (list_result scenario_d) =
     ([], Inr [''m1'', ''m3'', ''m4'', ''m5'', ''m6''])"
  by (simp add: scenario_d_def listing_def get_available_models_def strip_def split_on_def
        split_def is_space_def)

lemma discovered_scenario_fault:
  "get_available_models (list_result scenario_fault) = ([], Inr [''m0'', ''m1''])"
  by (simp add: scenario_fault_def listing_def get_available_models_def strip_def
        split_on_def split_def is_space_def)

lemma run_without_interrupt:
  assumes "get_available_models (list_result w) = (out, Inr ms)" and "ms \<noteq> []"
    and "\<forall>i<length ms.
           benchmark_model (model_env_at w i) (ms ! i) (test_prompts st) \<noteq> Inl KeyboardInterrupt"
    and "open_fault (save_env w) = None" and "dump_fault (save_env w) = None"
  shows "snd (run_full_benchmark w st) = None \<and>
         results (fst (run_full_benchmark w st)) =
           results st @ reports_of (outcomes (model_env_at w) ms (test_prompts st)) \<and>
         console (fst (run_full_benchmark w st)) =
           console st @ out @
           error_lines (zip ms (outcomes (model_env_at w) ms (test_prompts st))) @
           [ResultsSaved (results_filename (save_env w))] @
           summary_lines (results st @ reports_of (outcomes (model_env_at w) ms (test_prompts st)))"
proof -
  have "model_loop (model_env_at w) 0 ms (st\<lparr>console := console st @ out\<rparr>) =
      (st\<lparr>console := console st @ out\<rparr>)
        \<lparr>results := results st @ reports_of (outcomes (model_env_at w) ms (test_prompts st)),
         console := console st @ out @
           error_lines (zip ms (outcomes (model_env_at w) ms (test_prompts st)))\<rparr>"
    using model_loop_without_interrupt
            [of ms "model_env_at w" 0 "st\<lparr>console := console st @ out\<rparr>"] assms(3)
    by (simp add: outcomes_def)
  with assms(1,2,4,5) show ?thesis
    by (simp add: run_full_benchmark_def save_results_def print_summary_def Let_def)
qed

lemma run_interrupted_after:
  assumes "get_available_models (list_result w) = (out, Inr ms)" and "k < length ms"
    and "\<forall>i<k. benchmark_model (model_env_at w i) (ms ! i) (test_prompts st) = Inr (rs i)"
    and "benchmark_model (model_env_at w k) (ms ! k) (test_prompts st) = Inl KeyboardInterrupt"
    and "open_fault (save_env w) = None" and "dump_fault (save_env w) = None"
  shows "snd (run_full_benchmark w st) = None \<and>
         results (fst (run_full_benchmark w st)) = results st @ map rs [0..<k] \<and>
         files (fst (run_full_benchmark w st)) =
           (files st)(results_filename (save_env w) \<mapsto>
              Artifact (make_benchmark_data (save_env w)
                          (st\<lparr>results := results st @ map rs [0..<k]\<rparr>))) \<and>
         console (fst (run_full_benchmark w st)) =
           console st @ out @ [Interrupted, ResultsSaved (results_filename (save_env w))] @
           summary_lines (results st @ map rs [0..<k])"
proof -
  have "model_loop (model_env_at w) 0 ms (st\<lparr>console := console st @ out\<rparr>) =
      (st\<lparr>console := console st @ out\<rparr>)
        \<lparr>results := results st @ map rs [0..<k],
         console := console st @ out @ [Interrupted]\<rparr>"
    using model_loop_interrupted_after
            [of k ms "model_env_at w" 0 "st\<lparr>console := console st @ out\<rparr>" rs] assms(2,3,4)
    by simp
  moreover from assms(2) have "ms \<noteq> []" by auto
  ultimately show ?thesis
    using assms(1,5,6)
    by (simp add: run_full_benchmark_def save_results_def print_summary_def Let_def
          make_benchmark_data_def)
qed

lemma scenario_fault_ready:
  "ms = [''m0'', ''m1''] \<Longrightarrow>
   \<forall>i<length ms.
      benchmark_model (model_env_at scenario_fault i) (ms ! i) (test_prompts (collected []))
        \<noteq> Inl KeyboardInterrupt"
  by (simp add: collected_def less_Suc_eq scenario_fault_def faulty_raises scenario_a_returns)

lemma scenario_fault_outcomes:
  "outcomes (model_env_at scenario_fault) [''m0'', ''m1''] (test_prompts (collected [])) =
     [Inl (OtherException ''psutil.AccessDenied''), Inr scenario_a_report]"
  by (simp add: outcomes_def collected_def numeral_2_eq_2 scenario_fault_def faulty_raises
        scenario_a_returns)

lemma scenario_d_ready:
  "\<forall>i<Suc (Suc 0).
      benchmark_model (model_env_at scenario_d i) ([''m1'', ''m3'', ''m4'', ''m5'', ''m6''] ! i)
        (test_prompts (collected [])) =
      Inr ((\<lambda>i. if i = 0 then scenario_a_report else uneven_report) i)"
  by (simp add: collected_def less_Suc_eq scenario_d_def scenario_a_returns uneven_returns)

lemma scenario_d_interrupted:
  "benchmark_model (model_env_at scenario_d (Suc (Suc 0)))
     ([''m1'', ''m3'', ''m4'', ''m5'', ''m6''] ! Suc (Suc 0)) (test_prompts (collected [])) =
   Inl KeyboardInterrupt"
  by (simp add: collected_def scenario_d_def cut_short_interrupted)

lemma calm_quiet: "open_fault calm = None \<and> dump_fault calm = None \<and>
   results_filename calm = ''benchmark-results-2025-01-01.json''"
  by (simp add: calm_def results_filename_def)

text \<open>
  C6, as stated, fails: the model \<open>m0\<close> answers its first prompt and faults on the
  second; the fault is caught and \<open>m1\<close> is benchmarked, but nothing of \<open>m0\<close> is in the
  accumulated reports.
\<close>

theorem faulting_model_leaves_no_report:
  "get_available_models (list_result scenario_fault) = ([], Inr [''m0'', ''m1'']) \<and>
   model_env_at scenario_fault 0 = faulty \<and>
   map_sum id (\<lambda>(resp, t, v, m). map_of m ''error'') (run_inference (inference_at faulty 0)) =
     Inr None \<and>
   benchmark_model faulty ''m0'' init_test_prompts =
     Inl (OtherException ''psutil.AccessDenied'') \<and>
   map model (results (fst (run_full_benchmark scenario_fault (collected [])))) = [''m1'']"
proof -
  have "model_env_at scenario_fault 0 = faulty"
    by (simp add: scenario_fault_def)
  moreover have "map_sum id (\<lambda>(resp, t, v, m). map_of m ''error'')
          (run_inference (inference_at faulty 0)) = Inr None"
    by (simp add: faulty_def at_time_def first_prompt_answered)
  moreover have "save_env scenario_fault = calm"
    by (simp add: scenario_fault_def)
  then have "results (fst (run_full_benchmark scenario_fault (collected []))) =
      results (collected []) @
      reports_of (outcomes (model_env_at scenario_fault) [''m0'', ''m1'']
                    (test_prompts (collected [])))"
    using run_without_interrupt [OF discovered_scenario_fault _ scenario_fault_ready]
      calm_quiet by simp
  then have "map model (results (fst (run_full_benchmark scenario_fault (collected [])))) = [''m1'']"
    by (simp add: scenario_fault_outcomes) (simp add: collected_def scenario_a_report_def)
  ultimately show ?thesis
    using discovered_scenario_fault faulty_raises by simp
qed

text \<open>
  C6, amended: when no model is interrupted from the keyboard, every fault raised while
  one model is benchmarked is caught and reported, the loop goes on with the next model,
  and the accumulated reports are the earlier ones followed by the reports of exactly the
  models whose benchmark returned, in order of discovery; the faulting model contributes
  no report, partial or not. The run then saves and summarises these reports and raises
  nothing.
\<close>

theorem model_faults_are_isolated:
  assumes "get_available_models (list_result w) = (out, Inr ms)" and "ms \<noteq> []"
    and "\<forall>i<length ms.
           benchmark_model (model_env_at w i) (ms ! i) (test_prompts st) \<noteq> Inl KeyboardInterrupt"
    and "open_fault (save_env w) = None" and "dump_fault (save_env w) = None"
  shows "snd (run_full_benchmark w st) = None \<and>
         results (fst (run_full_benchmark w st)) =
           results st @ reports_of (outcomes (model_env_at w) ms (test_prompts st)) \<and>
         console (fst (run_full_benchmark w st)) =
           console st @ out @
           error_lines (zip ms (outcomes (model_env_at w) ms (test_prompts st))) @
           [ResultsSaved (results_filename (save_env w))] @
           summary_lines (results st @ reports_of (outcomes (model_env_at w) ms (test_prompts st)))"
  using assms by (rule run_without_interrupt)

theorem model_faults_are_isolated_witness:
  "get_available_models (list_result scenario_fault) = ([], Inr [''m0'', ''m1'']) \<and>
   outcomes (model_env_at scenario_fault) [''m0'', ''m1''] (test_prompts (collected [])) =
     [Inl (OtherException ''psutil.AccessDenied''), Inr scenario_a_report] \<and>
   snd (run_full_benchmark scenario_fault (collected [])) = None \<and>
   results (fst (run_full_benchmark scenario_fault (collected []))) = [scenario_a_report] \<and>
   console (fst (run_full_benchmark scenario_fault (collected []))) =
     [ErrorBenchmarking ''m0'' (OtherException ''psutil.AccessDenied''),
      ResultsSaved ''benchmark-results-2025-01-01.json''] @ summary_lines [scenario_a_report]"
proof -
  have env: "save_env scenario_fault = calm"
    by (simp add: scenario_fault_def)
  from model_faults_are_isolated [OF discovered_scenario_fault _ scenario_fault_ready]
  have "snd (run_full_benchmark scenario_fault (collected [])) = None \<and>
        results (fst (run_full_benchmark scenario_fault (collected []))) =
          results (collected []) @ [scenario_a_report] \<and>
        console (fst (run_full_benchmark scenario_fault (collected []))) =
          console (collected []) @
          [ErrorBenchmarking ''m0'' (OtherException ''psutil.AccessDenied''),
           ResultsSaved ''benchmark-results-2025-01-01.json''] @
          summary_lines (results (collected []) @ [scenario_a_report])"
    using calm_quiet by (simp add: env scenario_fault_outcomes)
  then show ?thesis
    using discovered_scenario_fault scenario_fault_outcomes by (simp add: collected_def)
qed

text \<open>
  C7, as stated, fails: in scenario D the third model has answered its first prompt when
  the interruption arrives, and the artifact holds the reports of the first two models
  only.
\<close>

theorem interrupted_model_leaves_no_report:
  "get_available_models (list_result scenario_d) =
     ([], Inr [''m1'', ''m3'', ''m4'', ''m5'', ''m6'']) \<and>
   model_env_at scenario_d 2 = cut_short \<and>
   map_sum id (\<lambda>(resp, t, v, m). map_of m ''error'') (run_inference (inference_at cut_short 0)) =
     Inr None \<and>
   benchmark_model cut_short ''m4'' init_test_prompts = Inl KeyboardInterrupt \<and>
   map_option (\<lambda>f. case f of Artifact d \<Rightarrow> map model (benchmark_data.results d) | HalfWritten \<Rightarrow> [])
     (files (fst (run_full_benchmark scenario_d (collected [])))
        ''benchmark-results-2025-01-01.json'') = Some [''m1'', ''m3'']"
proof -
  have "model_env_at scenario_d 2 = cut_short"
    by (simp add: scenario_d_def)
  moreover have "map_sum id (\<lambda>(resp, t, v, m). map_of m ''error'')
          (run_inference (inference_at cut_short 0)) = Inr None"
    by (simp add: cut_short_def at_time_def first_prompt_answered)
  moreover have env: "save_env scenario_d = calm"
    by (simp add: scenario_d_def)
  have "files (fst (run_full_benchmark scenario_d (collected []))) =
      (files (collected []))(''benchmark-results-2025-01-01.json'' \<mapsto>
         Artifact (make_benchmark_data calm
           (collected []\<lparr>results := results (collected []) @
              map (\<lambda>i. if i = 0 then scenario_a_report else uneven_report) [0..<Suc (Suc 0)]\<rparr>)))"
    using run_interrupted_after
            [OF discovered_scenario_d _ scenario_d_ready scenario_d_interrupted]
      calm_quiet by (simp add: env)
  then have "map_option (\<lambda>f. case f of Artifact d \<Rightarrow> map model (benchmark_data.results d) | HalfWritten \<Rightarrow> [])
     (files (fst (run_full_benchmark scenario_d (collected [])))
        ''benchmark-results-2025-01-01.json'') = Some [''m1'', ''m3'']"
    by (simp add: make_benchmark_data_def collected_def report_defs)
  ultimately show ?thesis
    using discovered_scenario_d cut_short_interrupted by simp
qed

lemma main_after_interrupt:
  assumes "version_result w = Inr c"
    and "run_full_benchmark w
           \<lparr>results = [], test_prompts = init_test_prompts, files = fs, console = []\<rparr> =
         (st1, Some KeyboardInterrupt)"
    and "results st1 \<noteq> []"
    and "open_fault (save_env_main w) = None" and "dump_fault (save_env_main w) = None"
  shows "snd (main w fs) = Returned \<and>
         files (fst (main w fs)) =
           (files st1)(results_filename (save_env_main w) \<mapsto>
              Artifact (make_benchmark_data (save_env_main w)
                          (st1\<lparr>console := console st1 @ [Interrupted]\<rparr>))) \<and>
         console (fst (main w fs)) =
           console st1 @ [Interrupted, ResultsSaved (results_filename (save_env_main w))] @
           summary_lines (results st1)"
  using assms
  by (simp add: main_def save_results_def print_summary_def Let_def)

lemma run_scenario_late:
  "run_full_benchmark scenario_late
     \<lparr>results = [], test_prompts = init_test_prompts, files = Map.empty, console = []\<rparr> =
   (\<lparr>results = [scenario_a_report], test_prompts = init_test_prompts,
     files = [''benchmark-results-2025-01-01.json'' \<mapsto> HalfWritten],
     console = [ErrorBenchmarking ''m0'' (OtherException ''psutil.AccessDenied'')]\<rparr>,
    Some KeyboardInterrupt)"
proof -
  have listed: "get_available_models (list_result scenario_late) = ([], Inr [''m0'', ''m1''])"
    using discovered_scenario_fault by (simp add: scenario_late_def)
  have envs: "model_env_at scenario_late = model_env_at scenario_fault"
    by (simp add: scenario_late_def)
  have "model_loop (model_env_at scenario_late) 0 [''m0'', ''m1''] (collected []) =
      (collected [])
        \<lparr>results := results (collected []) @
           reports_of [Inl (OtherException ''psutil.AccessDenied''), Inr scenario_a_report],
         console := console (collected []) @
           error_lines (zip [''m0'', ''m1'']
             [Inl (OtherException ''psutil.AccessDenied''), Inr scenario_a_report])\<rparr>"
    using model_loop_without_interrupt
            [of "[''m0'', ''m1'']" "model_env_at scenario_fault" 0 "collected []"]
      scenario_fault_ready [OF refl] scenario_fault_outcomes
    by (simp add: envs outcomes_def)
  then have loop: "model_loop (model_env_at scenario_late) 0 [''m0'', ''m1'']
      \<lparr>results = [], test_prompts = init_test_prompts, files = Map.empty, console = []\<rparr> =
      \<lparr>results = [scenario_a_report], test_prompts = init_test_prompts, files = Map.empty,
       console = [ErrorBenchmarking ''m0'' (OtherException ''psutil.AccessDenied'')]\<rparr>"
    by (simp add: collected_def)
  have "run_full_benchmark scenario_late
     \<lparr>results = [], test_prompts = init_test_prompts, files = Map.empty, console = []\<rparr> =
     (case save_results (save_env scenario_late)
             (model_loop (model_env_at scenario_late) 0 [''m0'', ''m1'']
                \<lparr>results = [], test_prompts = init_test_prompts, files = Map.empty,
                 console = []\<rparr>) of
        (st2, Some e) \<Rightarrow> (st2, Some e)
      | (st2, None) \<Rightarrow> (print_summary st2, None))"
    by (simp add: run_full_benchmark_def listed del: model_loop.simps)
  also have "\<dots> =
     (\<lparr>results = [scenario_a_report], test_prompts = init_test_prompts,
       files = [''benchmark-results-2025-01-01.json'' \<mapsto> HalfWritten],
       console = [ErrorBenchmarking ''m0'' (OtherException ''psutil.AccessDenied'')]\<rparr>,
      Some KeyboardInterrupt)"
    unfolding loop
    by (simp add: save_results_def results_filename_def Let_def scenario_late_def calm_def)
  finally show ?thesis .
qed

text \<open>
  C7, amended: when the interruption arrives while the model at position \<open>k\<close> is
  benchmarked and the models before it have returned their reports, the loop stops, and
  the run saves and summarises exactly the earlier reports followed by those \<open>k\<close>
  reports; the interrupted model contributes no report. When the interruption leaves
  \<open>run_full_benchmark\<close> itself and reports have been collected, \<open>main\<close> saves and
  summarises them.
\<close>

theorem interruption_keeps_completed_reports:
  "(get_available_models (list_result w) = (out, Inr ms) \<and> k < length ms \<and>
    (\<forall>i<k. benchmark_model (model_env_at w i) (ms ! i) (test_prompts st) = Inr (rs i)) \<and>
    benchmark_model (model_env_at w k) (ms ! k) (test_prompts st) = Inl KeyboardInterrupt \<and>
    open_fault (save_env w) = None \<and> dump_fault (save_env w) = None \<longrightarrow>
      snd (run_full_benchmark w st) = None \<and>
      results (fst (run_full_benchmark w st)) = results st @ map rs [0..<k] \<and>
      (\<exists>d. files (fst (run_full_benchmark w st)) (results_filename (save_env w)) =
              Some (Artifact d) \<and>
            benchmark_data.results d = results st @ map rs [0..<k]) \<and>
      console (fst (run_full_benchmark w st)) =
        console st @ out @ [Interrupted, ResultsSaved (results_filename (save_env w))] @
        summary_lines (results st @ map rs [0..<k])) \<and>
   (version_result w = Inr c \<and>
    run_full_benchmark w
      \<lparr>results = [], test_prompts = init_test_prompts, files = fs, console = []\<rparr> =
      (st1, Some KeyboardInterrupt) \<and>
    results st1 \<noteq> [] \<and>
    open_fault (save_env_main w) = None \<and> dump_fault (save_env_main w) = None \<longrightarrow>
      snd (main w fs) = Returned \<and>
      (\<exists>d. files (fst (main w fs)) (results_filename (save_env_main w)) = Some (Artifact d) \<and>
            benchmark_data.results d = results st1) \<and>
      console (fst (main w fs)) =
        console st1 @ [Interrupted, ResultsSaved (results_filename (save_env_main w))] @
        summary_lines (results st1))"
proof -
  have in_loop: "snd (run_full_benchmark w st) = None \<and>
      results (fst (run_full_benchmark w st)) = results st @ map rs [0..<k] \<and>
      (\<exists>d. files (fst (run_full_benchmark w st)) (results_filename (save_env w)) =
              Some (Artifact d) \<and>
            benchmark_data.results d = results st @ map rs [0..<k]) \<and>
      console (fst (run_full_benchmark w st)) =
        console st @ out @ [Interrupted, ResultsSaved (results_filename (save_env w))] @
        summary_lines (results st @ map rs [0..<k])"
    if "get_available_models (list_result w) = (out, Inr ms)" "k < length ms"
      "\<forall>i<k. benchmark_model (model_env_at w i) (ms ! i) (test_prompts st) = Inr (rs i)"
      "benchmark_model (model_env_at w k) (ms ! k) (test_prompts st) = Inl KeyboardInterrupt"
      "open_fault (save_env w) = None" "dump_fault (save_env w) = None"
    using run_interrupted_after [OF that] by (simp add: make_benchmark_data_def)
  have in_main: "snd (main w fs) = Returned \<and>
      (\<exists>d. files (fst (main w fs)) (results_filename (save_env_main w)) = Some (Artifact d) \<and>
            benchmark_data.results d = results st1) \<and>
      console (fst (main w fs)) =
        console st1 @ [Interrupted, ResultsSaved (results_filename (save_env_main w))] @
        summary_lines (results st1)"
    if "version_result w = Inr c"
      "run_full_benchmark w
         \<lparr>results = [], test_prompts = init_test_prompts, files = fs, console = []\<rparr> =
       (st1, Some KeyboardInterrupt)"
      "results st1 \<noteq> []"
      "open_fault (save_env_main w) = None" "dump_fault (save_env_main w) = None"
    using main_after_interrupt [OF that] by (simp add: make_benchmark_data_def)
  from in_loop in_main show ?thesis
    by blast
qed

theorem interruption_keeps_completed_reports_witness:
  "get_available_models (list_result scenario_d) =
     ([], Inr [''m1'', ''m3'', ''m4'', ''m5'', ''m6'']) \<and>
   benchmark_model (model_env_at scenario_d 0) ''m1'' init_test_prompts = Inr scenario_a_report \<and>
   benchmark_model (model_env_at scenario_d 1) ''m3'' init_test_prompts = Inr uneven_report \<and>
   benchmark_model (model_env_at scenario_d 2) ''m4'' init_test_prompts = Inl KeyboardInterrupt \<and>
   snd (run_full_benchmark scenario_d (collected [])) = None \<and>
   results (fst (run_full_benchmark scenario_d (collected []))) =
     [scenario_a_report, uneven_report] \<and>
   map_option (\<lambda>f. case f of Artifact d \<Rightarrow> benchmark_data.results d | HalfWritten \<Rightarrow> [])
     (files (fst (run_full_benchmark scenario_d (collected [])))
        ''benchmark-results-2025-01-01.json'') = Some [scenario_a_report, uneven_report] \<and>
   console (fst (run_full_benchmark scenario_d (collected []))) =
     [Interrupted, ResultsSaved ''benchmark-results-2025-01-01.json''] @
     summary_lines [scenario_a_report, uneven_report] \<and>
   snd (main scenario_late Map.empty) = Returned \<and>
   map_option (\<lambda>f. case f of Artifact d \<Rightarrow> benchmark_data.results d | HalfWritten \<Rightarrow> [])
     (files (fst (main scenario_late Map.empty)) ''benchmark-results-2025-01-01.json'') =
     Some [scenario_a_report]"
proof -
  have env: "save_env scenario_d = calm"
    by (simp add: scenario_d_def)
  have each: "benchmark_model (model_env_at scenario_d 0) ''m1'' init_test_prompts =
      Inr scenario_a_report \<and>
    benchmark_model (model_env_at scenario_d 1) ''m3'' init_test_prompts = Inr uneven_report \<and>
    benchmark_model (model_env_at scenario_d 2) ''m4'' init_test_prompts = Inl KeyboardInterrupt"
    by (simp add: scenario_d_def scenario_a_returns uneven_returns cut_short_interrupted)
  note loop_inst = interruption_keeps_completed_reports
    [where w = scenario_d and out = "[]" and ms = "[''m1'', ''m3'', ''m4'', ''m5'', ''m6'']"
       and k = "Suc (Suc 0)" and st = "collected []"
       and rs = "\<lambda>i. if i = 0 then scenario_a_report else uneven_report"]
  from loop_inst discovered_scenario_d scenario_d_ready scenario_d_interrupted calm_quiet
  have "snd (run_full_benchmark scenario_d (collected [])) = None \<and>
      results (fst (run_full_benchmark scenario_d (collected []))) =
        results (collected []) @
        map (\<lambda>i. if i = 0 then scenario_a_report else uneven_report) [0..<Suc (Suc 0)] \<and>
      (\<exists>d. files (fst (run_full_benchmark scenario_d (collected [])))
              ''benchmark-results-2025-01-01.json'' = Some (Artifact d) \<and>
            benchmark_data.results d = results (collected []) @
              map (\<lambda>i. if i = 0 then scenario_a_report else uneven_report) [0..<Suc (Suc 0)]) \<and>
      console (fst (run_full_benchmark scenario_d (collected []))) =
        console (collected []) @ [] @
        [Interrupted, ResultsSaved ''benchmark-results-2025-01-01.json''] @
        summary_lines (results (collected []) @
          map (\<lambda>i. if i = 0 then scenario_a_report else uneven_report) [0..<Suc (Suc 0)])"
    by (simp add: env)
  then have run: "snd (run_full_benchmark scenario_d (collected [])) = None \<and>
      results (fst (run_full_benchmark scenario_d (collected []))) =
        [scenario_a_report, uneven_report] \<and>
      map_option (\<lambda>f. case f of Artifact d \<Rightarrow> benchmark_data.results d | HalfWritten \<Rightarrow> [])
        (files (fst (run_full_benchmark scenario_d (collected [])))
           ''benchmark-results-2025-01-01.json'') = Some [scenario_a_report, uneven_report] \<and>
      console (fst (run_full_benchmark scenario_d (collected []))) =
        [Interrupted, ResultsSaved ''benchmark-results-2025-01-01.json''] @
        summary_lines [scenario_a_report, uneven_report]"
    by (auto simp: collected_def)
  have late: "version_result scenario_late = version_ok \<and> save_env_main scenario_late = calm"
    by (simp add: scenario_late_def scenario_fault_def)
  note late_inst = interruption_keeps_completed_reports
    [where w = scenario_late
       and c = "\<lparr>returncode = 0, stdout = ''ollama version is 0.5.1'', stderr = []\<rparr>"
       and fs = Map.empty
       and ?st1.0 = "\<lparr>results = [scenario_a_report], test_prompts = init_test_prompts,
          files = [''benchmark-results-2025-01-01.json'' \<mapsto> HalfWritten],
          console = [ErrorBenchmarking ''m0'' (OtherException ''psutil.AccessDenied'')]\<rparr>"]
  from late_inst run_scenario_late calm_quiet late
  have "snd (main scenario_late Map.empty) = Returned \<and>
      (\<exists>d. files (fst (main scenario_late Map.empty)) ''benchmark-results-2025-01-01.json'' =
              Some (Artifact d) \<and>
            benchmark_data.results d = [scenario_a_report])"
    by (simp add: version_ok_def)
  then have "snd (main scenario_late Map.empty) = Returned \<and>
     map_option (\<lambda>f. case f of Artifact d \<Rightarrow> benchmark_data.results d | HalfWritten \<Rightarrow> [])
       (files (fst (main scenario_late Map.empty)) ''benchmark-results-2025-01-01.json'') =
       Some [scenario_a_report]"
    by auto
  with run each discovered_scenario_d show ?thesis
    by blast
qed

subsection \<open>Discovery\<close>

lemma split_nonempty:
  assumes "strip l \<noteq> []"
  shows "split l \<noteq> []"
proof
  assume "split l = []"
  then have "concat (split_from [] l) = []"
    by (simp add: split_def)
  then have "filter (\<lambda>c. \<not> is_space c) l = []"
    by (simp add: concat_split_from)
  then have "\<forall>c \<in> set l. is_space c"
    by (simp add: filter_empty_conv)
  then have "dropWhile is_space l = []"
    by simp
  with assms show False
    by (simp add: strip_def)
qed

lemma model_names_returns: "\<exists>ms. model_names ls = Inr ms"
proof (induction ls)
  case Nil
  then show ?case by simp
next
  case (Cons l ls)
  then obtain ms where ms: "model_names ls = Inr ms" by blast
  show ?case
  proof (cases "strip l = []")
    case True
    with ms show ?thesis by simp
  next
    case False
    then obtain t ts where "split l = t # ts"
      using split_nonempty [of l] by (cases "split l") auto
    with False ms show ?thesis by simp
  qed
qed

lemma run_refused:
  assumes "list_result w = Inl (CalledProcessError s)"
  shows "run_full_benchmark w st =
           (st\<lparr>console := console st @
                  [ErrorGettingModelList (CalledProcessError s), NoModelsFound]\<rparr>, None)"
  using assms by (simp add: run_full_benchmark_def get_available_models_def)

text \<open>
  C8, as stated, fails: when \<open>ollama list\<close> exits with a non-zero status, discovery does
  not fail; it reports the error and returns the empty list, and the run ends like one
  that found no model.
\<close>

theorem refused_listing_is_an_empty_result:
  "get_available_models (list_result scenario_refused) =
     ([ErrorGettingModelList
         (CalledProcessError ''Command ollama list returned non-zero exit status 1.'')],
      Inr []) \<and>
   run_full_benchmark scenario_refused (collected []) =
     (collected []
        \<lparr>console :=
           [ErrorGettingModelList
              (CalledProcessError ''Command ollama list returned non-zero exit status 1.''),
            NoModelsFound]\<rparr>,
      None)"
proof -
  have listed: "list_result scenario_refused =
      Inl (CalledProcessError ''Command ollama list returned non-zero exit status 1.'')"
    by (simp add: scenario_refused_def)
  then have "get_available_models (list_result scenario_refused) =
     ([ErrorGettingModelList
         (CalledProcessError ''Command ollama list returned non-zero exit status 1.'')],
      Inr [])"
    by (simp add: get_available_models_def)
  with run_refused [OF listed, of "collected []"] show ?thesis
    by (simp add: collected_def)
qed

text \<open>
  C8, amended: when the backend returns a non-zero status, discovery reports the error and
  returns the empty list, and the run ends signalling that no models were found; when the
  backend cannot be started (or discovery raises anything else), the fault leaves the run
  and, unless it is a keyboard interrupt, \<open>main\<close>; after a successful but empty
  discovery the run ends signalling that no models were found. In all three cases no model
  is benchmarked, no report is added and no file is written. Parsing the listing itself
  never raises.
\<close>

theorem discovery_failures_end_the_run:
  "(list_result w = Inl (CalledProcessError s) \<longrightarrow>
      get_available_models (list_result w) =
        ([ErrorGettingModelList (CalledProcessError s)], Inr []) \<and>
      run_full_benchmark w st =
        (st\<lparr>console := console st @
               [ErrorGettingModelList (CalledProcessError s), NoModelsFound]\<rparr>, None)) \<and>
   (list_result w = Inl e \<and> (\<forall>s'. e \<noteq> CalledProcessError s') \<longrightarrow>
      get_available_models (list_result w) = ([], Inl e) \<and>
      run_full_benchmark w st = (st, Some e) \<and>
      (version_result w = Inr c \<and> e \<noteq> KeyboardInterrupt \<longrightarrow>
         main w fs =
           (\<lparr>results = [], test_prompts = init_test_prompts, files = fs, console = []\<rparr>,
            Uncaught e))) \<and>
   (list_result w = Inr c' \<and> get_available_models (list_result w) = ([], Inr []) \<longrightarrow>
      run_full_benchmark w st = (st\<lparr>console := console st @ [NoModelsFound]\<rparr>, None)) \<and>
   (list_result w = Inr c' \<longrightarrow>
      (\<exists>models. get_available_models (list_result w) = ([], Inr models)))"
proof -
  have refused: "get_available_models (list_result w) =
        ([ErrorGettingModelList (CalledProcessError s)], Inr []) \<and>
      run_full_benchmark w st =
        (st\<lparr>console := console st @
               [ErrorGettingModelList (CalledProcessError s), NoModelsFound]\<rparr>, None)"
    if "list_result w = Inl (CalledProcessError s)"
    using that run_refused [OF that, of st] by (simp add: get_available_models_def)
  have raised: "get_available_models (list_result w) = ([], Inl e)"
    if "list_result w = Inl e" "\<forall>s'. e \<noteq> CalledProcessError s'"
    using that by (cases e) (simp_all add: get_available_models_def)
  have absent: "get_available_models (list_result w) = ([], Inl e) \<and>
      run_full_benchmark w st = (st, Some e) \<and>
      (version_result w = Inr c \<and> e \<noteq> KeyboardInterrupt \<longrightarrow>
         main w fs =
           (\<lparr>results = [], test_prompts = init_test_prompts, files = fs, console = []\<rparr>,
            Uncaught e))"
    if "list_result w = Inl e" "\<forall>s'. e \<noteq> CalledProcessError s'"
  proof -
    have run: "run_full_benchmark w st' = (st', Some e)" for st'
      using raised [OF that] by (simp add: run_full_benchmark_def)
    have "main w fs =
           (\<lparr>results = [], test_prompts = init_test_prompts, files = fs, console = []\<rparr>,
            Uncaught e)"
      if "version_result w = Inr c" "e \<noteq> KeyboardInterrupt"
      using that by (cases e) (simp_all add: main_def run)
    with raised [OF that] run show ?thesis by blast
  qed
  have empty: "run_full_benchmark w st = (st\<lparr>console := console st @ [NoModelsFound]\<rparr>, None)"
    if "get_available_models (list_result w) = ([], Inr [])"
    using that by (simp add: run_full_benchmark_def)
  have parsed: "\<exists>models. get_available_models (list_result w) = ([], Inr models)"
    if "list_result w = Inr c'"
    using that model_names_returns [of "tl (split_on (CHR 0x0A) (strip (stdout c')))"]
    by (auto simp: get_available_models_def)
  from refused absent empty parsed show ?thesis
    by blast
qed

theorem discovery_failures_end_the_run_witness:
  "list_result scenario_refused =
     Inl (CalledProcessError ''Command ollama list returned non-zero exit status 1.'') \<and>
   run_full_benchmark scenario_refused (collected []) =
     (collected []
        \<lparr>console :=
           [ErrorGettingModelList
              (CalledProcessError ''Command ollama list returned non-zero exit status 1.''),
            NoModelsFound]\<rparr>,
      None) \<and>
   list_result scenario_absent = Inl (FileNotFoundError ''No such file or directory: ollama'') \<and>
   run_full_benchmark scenario_absent (collected []) =
     (collected [], Some (FileNotFoundError ''No such file or directory: ollama'')) \<and>
   main scenario_absent Map.empty =
     (collected [], Uncaught (FileNotFoundError ''No such file or directory: ollama'')) \<and>
   get_available_models (list_result scenario_c) = ([], Inr []) \<and>
   run_full_benchmark scenario_c (collected []) =
     (collected []\<lparr>console := [NoModelsFound]\<rparr>, None)"
proof -
  have refused: "list_result scenario_refused =
     Inl (CalledProcessError ''Command ollama list returned non-zero exit status 1.'')"
    by (simp add: scenario_refused_def)
  have absent: "list_result scenario_absent =
      Inl (FileNotFoundError ''No such file or directory: ollama'')"
    and version: "version_result scenario_absent =
      Inr \<lparr>returncode = 0, stdout = ''ollama version is 0.5.1'', stderr = []\<rparr>"
    by (simp_all add: scenario_absent_def scenario_d_def version_ok_def)
  have listed: "list_result scenario_c =
      Inr \<lparr>returncode = 0, stdout = ''NAME ID SIZE MODIFIED'' @ [CHR 0x0A], stderr = []\<rparr>"
    by (simp add: scenario_c_def listing_def)
  then have none: "get_available_models (list_result scenario_c) = ([], Inr [])"
    by (simp add: get_available_models_def strip_def split_on_def is_space_def)
  from discovery_failures_end_the_run
         [where w = scenario_refused and st = "collected []"
            and s = "''Command ollama list returned non-zero exit status 1.''"]
       refused
  have a: "run_full_benchmark scenario_refused (collected []) =
     (collected []
        \<lparr>console :=
           [ErrorGettingModelList
              (CalledProcessError ''Command ollama list returned non-zero exit status 1.''),
            NoModelsFound]\<rparr>,
      None)"
    by (simp add: collected_def)
  from discovery_failures_end_the_run
         [where w = scenario_absent and st = "collected []" and fs = Map.empty
            and e = "FileNotFoundError ''No such file or directory: ollama''"
            and c = "\<lparr>returncode = 0, stdout = ''ollama version is 0.5.1'', stderr = []\<rparr>"]
       absent version
  have b: "run_full_benchmark scenario_absent (collected []) =
       (collected [], Some (FileNotFoundError ''No such file or directory: ollama'')) \<and>
     main scenario_absent Map.empty =
       (collected [], Uncaught (FileNotFoundError ''No such file or directory: ollama''))"
    by (simp add: collected_def)
  from discovery_failures_end_the_run
         [where w = scenario_c and st = "collected []"
            and c' = "\<lparr>returncode = 0, stdout = ''NAME ID SIZE MODIFIED'' @ [CHR 0x0A],
                         stderr = []\<rparr>"]
       listed none
  have c: "run_full_benchmark scenario_c (collected []) =
     (collected []\<lparr>console := [NoModelsFound]\<rparr>, None)"
    by (simp add: collected_def)
  from refused absent(1) none a b c show ?thesis
    by blast
qed

subsection \<open>Saving\<close>

lemma save_results_undisturbed:
  assumes "open_fault env = None" and "dump_fault env = None"
  shows "save_results env st =
           (st\<lparr>files := (files st)(results_filename env \<mapsto> Artifact (make_benchmark_data env st)),
               console := console st @ [ResultsSaved (results_filename env)]\<rparr>, None)"
  using assms by (simp add: save_results_def Let_def)

lemma save_results_dump_fault:
  assumes "open_fault env = None" and "dump_fault env = Some e"
  shows "save_results env st =
           (st\<lparr>files := (files st)(results_filename env \<mapsto> HalfWritten)\<rparr>, Some e)"
  using assms by (simp add: save_results_def Let_def)

text \<open>
  C9, as stated, fails: the artifact of an earlier call exists, the disk fills up while a
  second call dumps, and what a reader finds under the artifact's name afterwards is
  neither the old document nor the new one.
\<close>

theorem interrupted_dump_leaves_half_written_artifact:
  "files (fst (save_results calm (collected [scenario_a_report])))
     ''benchmark-results-2025-01-01.json'' =
     Some (Artifact (make_benchmark_data calm (collected [scenario_a_report]))) \<and>
   snd (save_results disk_full
          ((fst (save_results calm (collected [scenario_a_report])))
            \<lparr>results := [scenario_a_report, uneven_report]\<rparr>)) =
     Some (OtherException ''No space left on device'') \<and>
   files (fst (save_results disk_full
                 ((fst (save_results calm (collected [scenario_a_report])))
                   \<lparr>results := [scenario_a_report, uneven_report]\<rparr>)))
     ''benchmark-results-2025-01-01.json'' = Some HalfWritten"
proof -
  have full: "open_fault disk_full = None \<and>
      dump_fault disk_full = Some (OtherException ''No space left on device'') \<and>
      results_filename disk_full = ''benchmark-results-2025-01-01.json''"
    by (simp add: disk_full_def calm_def results_filename_def)
  show ?thesis
    using calm_quiet full
    by (simp add: save_results_undisturbed save_results_dump_fault)
qed

text \<open>
  C9, amended: a call of \<open>save_results\<close> during which neither \<open>open\<close> nor
  \<open>json.dump\<close> raises succeeds whatever reports have been collected, and the artifact
  holds exactly these reports; a second such call on the same calendar date writes under
  the same name and replaces the artifact of the first. The file is written in place: it
  is truncated when it is opened, and a fault during the dump leaves it half written, the
  earlier artifact gone.
\<close>

theorem save_results_overwrites_in_place:
  "(open_fault env = None \<and> dump_fault env = None \<longrightarrow>
      snd (save_results env st) = None \<and>
      files (fst (save_results env st)) =
        (files st)(results_filename env \<mapsto> Artifact (make_benchmark_data env st)) \<and>
      benchmark_data.results (make_benchmark_data env st) = results st) \<and>
   (open_fault env = None \<and> dump_fault env = None \<and>
    open_fault env' = None \<and> dump_fault env' = None \<and> today env' = today env \<longrightarrow>
      results_filename env' = results_filename env \<and>
      files (fst (save_results env' ((fst (save_results env st))\<lparr>results := rs\<rparr>)))
        (results_filename env) =
        Some (Artifact (make_benchmark_data env' (st\<lparr>results := rs\<rparr>)))) \<and>
   (open_fault env = None \<and> dump_fault env = Some e \<longrightarrow>
      snd (save_results env st) = Some e \<and>
      files (fst (save_results env st)) (results_filename env) = Some HalfWritten)"
proof -
  have once: "snd (save_results env st) = None \<and>
      files (fst (save_results env st)) =
        (files st)(results_filename env \<mapsto> Artifact (make_benchmark_data env st)) \<and>
      benchmark_data.results (make_benchmark_data env st) = results st"
    if "open_fault env = None" "dump_fault env = None"
    using that by (simp add: save_results_undisturbed) (simp add: make_benchmark_data_def)
  have twice: "results_filename env' = results_filename env \<and>
      files (fst (save_results env' ((fst (save_results env st))\<lparr>results := rs\<rparr>)))
        (results_filename env) =
        Some (Artifact (make_benchmark_data env' (st\<lparr>results := rs\<rparr>)))"
    if "open_fault env = None" "dump_fault env = None"
      "open_fault env' = None" "dump_fault env' = None" "today env' = today env"
  proof -
    have same: "results_filename env' = results_filename env"
      using that(5) by (simp add: results_filename_def)
    then show ?thesis
      using that by (simp add: save_results_undisturbed) (simp add: make_benchmark_data_def)
  qed
  have half: "snd (save_results env st) = Some e \<and>
      files (fst (save_results env st)) (results_filename env) = Some HalfWritten"
    if "open_fault env = None" "dump_fault env = Some e"
    using that by (simp add: save_results_dump_fault)
  from once twice half show ?thesis
    by blast
qed

theorem save_results_overwrites_in_place_witness:
  "open_fault calm = None \<and> dump_fault calm = None \<and>
   open_fault later = None \<and> dump_fault later = None \<and> today later = today calm \<and>
   snd (save_results calm (collected [scenario_a_report])) = None \<and>
   files (fst (save_results calm (collected [scenario_a_report])))
     ''benchmark-results-2025-01-01.json'' =
     Some (Artifact (make_benchmark_data calm (collected [scenario_a_report]))) \<and>
   files (fst (save_results later
                 ((fst (save_results calm (collected [scenario_a_report])))
                   \<lparr>results := [scenario_a_report, uneven_report]\<rparr>)))
     ''benchmark-results-2025-01-01.json'' =
     Some (Artifact (make_benchmark_data later (collected [scenario_a_report, uneven_report]))) \<and>
   dump_fault disk_full = Some (OtherException ''No space left on device'') \<and>
   files (fst (save_results disk_full (collected [scenario_a_report])))
     ''benchmark-results-2025-01-01.json'' = Some HalfWritten"
proof -
  have quiet: "open_fault later = None \<and> dump_fault later = None \<and> today later = today calm"
    by (simp add: later_def calm_def)
  have full: "open_fault disk_full = None \<and>
      dump_fault disk_full = Some (OtherException ''No space left on device'') \<and>
      results_filename disk_full = ''benchmark-results-2025-01-01.json''"
    by (simp add: disk_full_def calm_def results_filename_def)
  note first = save_results_overwrites_in_place
    [where env = calm and env' = later and st = "collected [scenario_a_report]"
       and rs = "[scenario_a_report, uneven_report]"]
  note second = save_results_overwrites_in_place
    [where env = disk_full and st = "collected [scenario_a_report]"
       and e = "OtherException ''No space left on device''"]
  from first calm_quiet quiet
  have a: "snd (save_results calm (collected [scenario_a_report])) = None \<and>
     files (fst (save_results calm (collected [scenario_a_report])))
       ''benchmark-results-2025-01-01.json'' =
       Some (Artifact (make_benchmark_data calm (collected [scenario_a_report]))) \<and>
     files (fst (save_results later
                 ((fst (save_results calm (collected [scenario_a_report])))
                   \<lparr>results := [scenario_a_report, uneven_report]\<rparr>)))
       ''benchmark-results-2025-01-01.json'' =
       Some (Artifact (make_benchmark_data later (collected [scenario_a_report, uneven_report])))"
    by (simp add: collected_def)
  from second full
  have b: "files (fst (save_results disk_full (collected [scenario_a_report])))
     ''benchmark-results-2025-01-01.json'' = Some HalfWritten"
    by simp
  from a b calm_quiet quiet full show ?thesis
    by blast
qed

end
